theory Spec2Isabelle
  imports Main
begin

section \<open>Document Center: the record store of Code.js\<close>

text \<open>
  The backend keeps its data in the sheets of one spreadsheet. A sheet is the list of its
  rows, the first row being the header; a row is a list of cells. The functions of
  Code.js that keep the documents, the counters, the favorites, the sessions and the
  activity log, and those that read them for the page, are embedded as functions on an
  explicit store. The HTML pages, the choice of an avatar, the bulk wrappers around
  \<^verbatim>\<open>updateDocument\<close>, \<^verbatim>\<open>addCategory\<close> and \<^verbatim>\<open>recordDocumentView\<close> are not
  part of the properties below and are left out.
\<close>

subsection \<open>Cell values and the JavaScript operators used on them\<close>

text \<open>
  The values a cell, a request field or a property can hold. Numbers are the
  integers (every number the code writes is a counter); a date is its time in
  milliseconds; \<open>CUndef\<close> is \<^verbatim>\<open>undefined\<close>.
\<close>

datatype cell = CStr string | CNum int | CBool bool | CDate int | CUndef

text \<open>
  \<^verbatim>\<open>a === b\<close>. Strings, numbers, booleans and \<^verbatim>\<open>undefined\<close> are compared by
  value. A date read from a sheet is a fresh object, and objects are compared by identity,
  so it is equal to nothing.
\<close>

fun strictEq :: "cell \<Rightarrow> cell \<Rightarrow> bool" where
  "strictEq (CDate _) _ = False"
| "strictEq a b = (a = b)"

text \<open>The truth value of a cell in a condition, \<^verbatim>\<open>!x\<close> and \<^verbatim>\<open>x || y\<close>.\<close>

fun truthy :: "cell \<Rightarrow> bool" where
  "truthy (CStr s) = (s \<noteq> [])"
| "truthy (CNum n) = (n \<noteq> 0)"
| "truthy (CBool b) = b"
| "truthy (CDate _) = True"
| "truthy CUndef = False"

text \<open>\<^verbatim>\<open>row[i]\<close>: an index outside the array reads \<^verbatim>\<open>undefined\<close>; so does index -1.\<close>

definition at :: "cell list \<Rightarrow> nat \<Rightarrow> cell" where
  "at row i = (if i < length row then row ! i else CUndef)"

definition atIndex :: "cell list \<Rightarrow> nat option \<Rightarrow> cell" where
  "atIndex row i = (case i of None \<Rightarrow> CUndef | Some k \<Rightarrow> at row k)"

text \<open>
  \<^verbatim>\<open>xs.findIndex(p)\<close> and \<^verbatim>\<open>xs.indexOf(v)\<close>: the first index that matches,
  \<open>None\<close> for the -1 of the source.
\<close>

fun findIndex :: "('a \<Rightarrow> bool) \<Rightarrow> 'a list \<Rightarrow> nat option" where
  "findIndex p [] = None"
| "findIndex p (x # xs) =
     (if p x then Some 0 else map_option Suc (findIndex p xs))"

definition indexOf :: "cell list \<Rightarrow> cell \<Rightarrow> nat option" where
  "indexOf xs v = findIndex (\<lambda>x. strictEq x v) xs"

text \<open>\<^verbatim>\<open>s.includes(pat)\<close>: \<open>pat\<close> occurs in \<open>s\<close> as a contiguous substring.\<close>

fun startsWith :: "string \<Rightarrow> string \<Rightarrow> bool" where
  "startsWith s [] = True"
| "startsWith [] (p # ps) = False"
| "startsWith (c # cs) (p # ps) = (c = p \<and> startsWith cs ps)"

fun str_includes :: "string \<Rightarrow> string \<Rightarrow> bool" where
  "str_includes [] pat = (pat = [])"
| "str_includes (c # cs) pat = (startsWith (c # cs) pat \<or> str_includes cs pat)"

text \<open>\<^verbatim>\<open>s.split(',')\<close>: the pieces between the separators; one piece when there is none.\<close>

fun splitOn :: "char \<Rightarrow> string \<Rightarrow> string list" where
  "splitOn c [] = [[]]"
| "splitOn c (x # xs) =
     (if x = c then [] # splitOn c xs
      else case splitOn c xs of
             w # ws \<Rightarrow> (x # w) # ws
           | [] \<Rightarrow> [[x]])"

text \<open>
  \<^verbatim>\<open>s.trim()\<close>: white space removed at both ends. A character is one of the 256
  code units below U+0100; the white space among them is the space, the no-break space
  U+00A0, and the control characters tab, line feed, vertical tab, form feed and
  carriage return.
\<close>

definition isSpace :: "char \<Rightarrow> bool" where
  "isSpace c =
     (c \<in> set [CHR '' '', CHR 0x09, CHR 0x0A, CHR 0x0B, CHR 0x0C, CHR 0x0D, CHR 0xA0])"

definition trim :: "string \<Rightarrow> string" where
  "trim s = rev (dropWhile isSpace (rev (dropWhile isSpace s)))"

text \<open>\<^verbatim>\<open>xs.join(sep)\<close>\<close>

fun joinWith :: "string \<Rightarrow> string list \<Rightarrow> string" where
  "joinWith sep [] = []"
| "joinWith sep [x] = x"
| "joinWith sep (x # y # ys) = x @ sep @ joinWith sep (y # ys)"

text \<open>
  \<^verbatim>\<open>parseInt(v) || 0\<close>. A number is itself. Of a string the leading digits count,
  after white space and a sign: hexadecimal digits after the prefix 0x, decimal digits
  otherwise; without a digit it is not a number. Anything else is not a number, hence 0.
\<close>

definition isDigit :: "char \<Rightarrow> bool" where
  "isDigit c = (48 \<le> (of_char c :: nat) \<and> (of_char c :: nat) \<le> 57)"

definition digitOf :: "char \<Rightarrow> nat option" where
  "digitOf c =
     (let n = (of_char c :: nat)
      in if 48 \<le> n \<and> n \<le> 57 then Some (n - 48)
         else if 97 \<le> n \<and> n \<le> 102 then Some (n - 87)
         else if 65 \<le> n \<and> n \<le> 70 then Some (n - 55)
         else None)"

text \<open>The value of the longest prefix of digits of the radix; \<open>None\<close> without a digit.\<close>

fun leadingDigits :: "nat \<Rightarrow> nat option \<Rightarrow> string \<Rightarrow> nat option" where
  "leadingDigits radix acc [] = acc"
| "leadingDigits radix acc (c # cs) =
     (case digitOf c of
        Some d \<Rightarrow>
          if d < radix
          then leadingDigits radix (Some (radix * (case acc of None \<Rightarrow> 0 | Some a \<Rightarrow> a) + d)) cs
          else acc
      | None \<Rightarrow> acc)"

definition hasHexPrefix :: "string \<Rightarrow> bool" where
  "hasHexPrefix s = (take 2 s = ''0x'' \<or> take 2 s = ''0X'')"

definition parseUnsigned :: "string \<Rightarrow> nat option" where
  "parseUnsigned s =
     (if hasHexPrefix s then leadingDigits 16 None (drop 2 s) else leadingDigits 10 None s)"

definition parseIntString :: "string \<Rightarrow> int option" where
  "parseIntString s =
     (case dropWhile isSpace s of
        c # cs \<Rightarrow>
          if c = CHR ''-'' then map_option (\<lambda>n. - int n) (parseUnsigned cs)
          else if c = CHR ''+'' then map_option int (parseUnsigned cs)
          else map_option int (parseUnsigned (c # cs))
      | [] \<Rightarrow> None)"

fun parseInt :: "cell \<Rightarrow> int option" where
  "parseInt (CNum n) = Some n"
| "parseInt (CStr s) = parseIntString s"
| "parseInt (CBool b) = None"
| "parseInt (CDate t) = None"
| "parseInt CUndef = None"

definition parseIntOr0 :: "cell \<Rightarrow> int" where
  "parseIntOr0 v = (case parseInt v of None \<Rightarrow> 0 | Some n \<Rightarrow> n)"

text \<open>
  An object built by the code: its properties in the order they were set.
  \<open>getProp\<close> reads a property, \<^verbatim>\<open>undefined\<close> when it is absent; \<open>setProp\<close> is
  \<^verbatim>\<open>obj[k] = v\<close>.
\<close>

type_synonym object = "(string \<times> cell) list"

definition getProp :: "object \<Rightarrow> string \<Rightarrow> cell" where
  "getProp obj k = (case map_of obj k of None \<Rightarrow> CUndef | Some v \<Rightarrow> v)"

fun setProp :: "string \<Rightarrow> cell \<Rightarrow> object \<Rightarrow> object" where
  "setProp k v [] = [(k, v)]"
| "setProp k v ((k', v') # ps) = (if k = k' then (k, v) # ps else (k', v') # setProp k v ps)"

text \<open>The decimal digits of a number.\<close>

fun showNat :: "nat \<Rightarrow> string" where
  "showNat n = (if n < 10 then [char_of (48 + n)] else showNat (n div 10) @ [char_of (48 + n mod 10)])"

definition showInt :: "int \<Rightarrow> string" where
  "showInt i = (if i < 0 then CHR ''-'' # showNat (nat (- i)) else showNat (nat i))"

subsection \<open>File-type inference\<close>

text \<open>
  \<^verbatim>\<open>detectFileType(url)\<close>. The PDF and image tests are nested in the test for a Drive
  file link and fall through to the later tests when neither extension occurs.
\<close>

definition detectFileType :: "string \<Rightarrow> string" where
  "detectFileType url =
     (if url = [] then ''Other''
      else if str_includes url ''docs.google.com/document'' then ''Google Doc''
      else if str_includes url ''docs.google.com/spreadsheets'' then ''Google Sheet''
      else if str_includes url ''docs.google.com/presentation'' then ''Google Slides''
      else if str_includes url ''docs.google.com/forms'' then ''Google Form''
      else case (if str_includes url ''drive.google.com/file''
                 then (if str_includes url ''.pdf'' then Some ''PDF''
                       else if str_includes url ''.jpg'' \<or> str_includes url ''.png'' \<or> str_includes url ''.gif''
                       then Some ''Image'' else None)
                 else None) of
             Some t \<Rightarrow> t
           | None \<Rightarrow>
               if str_includes url ''sites.google.com'' then ''Google Site''
               else if str_includes url ''lookerstudio.google.com'' then ''Looker Studio''
               else if str_includes url ''tableau.com'' then ''Tableau''
               else ''Website'')"

text \<open>
  The classification as the specification words it: a table of substring patterns in
  priority order, the first matching entry giving the type; \<open>Other\<close> without a URL and
  \<open>Website\<close> for a URL that matches no entry.
\<close>

definition fileTypeLabels :: "string list" where
  "fileTypeLabels =
     [''Google Doc'', ''Google Sheet'', ''Google Slides'', ''Google Form'', ''PDF'', ''Image'',
      ''Google Site'', ''Looker Studio'', ''Tableau'', ''Website'', ''Other'']"

definition fileTypePatterns :: "((string \<Rightarrow> bool) \<times> string) list" where
  "fileTypePatterns =
     [(\<lambda>u. str_includes u ''docs.google.com/document'', ''Google Doc''),
      (\<lambda>u. str_includes u ''docs.google.com/spreadsheets'', ''Google Sheet''),
      (\<lambda>u. str_includes u ''docs.google.com/presentation'', ''Google Slides''),
      (\<lambda>u. str_includes u ''docs.google.com/forms'', ''Google Form''),
      (\<lambda>u. str_includes u ''drive.google.com/file'' \<and> str_includes u ''.pdf'', ''PDF''),
      (\<lambda>u. str_includes u ''drive.google.com/file'' \<and>
            (str_includes u ''.jpg'' \<or> str_includes u ''.png'' \<or> str_includes u ''.gif''), ''Image''),
      (\<lambda>u. str_includes u ''sites.google.com'', ''Google Site''),
      (\<lambda>u. str_includes u ''lookerstudio.google.com'', ''Looker Studio''),
      (\<lambda>u. str_includes u ''tableau.com'', ''Tableau'')]"

fun firstMatch :: "((string \<Rightarrow> bool) \<times> string) list \<Rightarrow> string \<Rightarrow> string option" where
  "firstMatch [] u = None"
| "firstMatch ((p, t) # rules) u = (if p u then Some t else firstMatch rules u)"

definition classifyByPriority :: "string \<Rightarrow> string" where
  "classifyByPriority url =
     (if url = [] then ''Other''
      else case firstMatch fileTypePatterns url of Some t \<Rightarrow> t | None \<Rightarrow> ''Website'')"

subsection \<open>The spreadsheet\<close>

text \<open>
  A sheet is the list of its rows, row 1 of the spreadsheet first; that row is the header.
  Rows are kept as the code writes them (it always writes full rows).
\<close>

type_synonym row = "cell list"
type_synonym sheet = "row list"

text \<open>\<^verbatim>\<open>sheet.getDataRange().getValues()\<close>; an empty sheet reads as one empty cell.\<close>

definition getValues :: "sheet \<Rightarrow> row list" where
  "getValues sh = (if sh = [] then [[CStr []]] else sh)"

definition getLastRow :: "sheet \<Rightarrow> nat" where
  "getLastRow sh = length sh"

definition appendRow :: "sheet \<Rightarrow> row \<Rightarrow> sheet" where
  "appendRow sh r = sh @ [r]"

text \<open>\<^verbatim>\<open>sheet.deleteRow(n)\<close>, rows counted from 1: the rows below move up.\<close>

definition deleteRow :: "sheet \<Rightarrow> nat \<Rightarrow> sheet" where
  "deleteRow sh n = take (n - 1) sh @ drop n sh"

text \<open>
  \<^verbatim>\<open>sheet.getRange(r, c).setValue(v)\<close>, row and column counted from 1. A cell
  beyond the data is created, the cells before it empty.
\<close>

definition setValue :: "sheet \<Rightarrow> nat \<Rightarrow> nat \<Rightarrow> cell \<Rightarrow> sheet" where
  "setValue sh r c v =
     (let sh' = sh @ replicate (r - length sh) [];
          old = sh' ! (r - 1);
          old' = old @ replicate (c - length old) (CStr [])
      in sh'[r - 1 := old'[c - 1 := v]])"


text \<open>The spreadsheet: each named sheet, \<open>None\<close> when \<^verbatim>\<open>getSheetByName\<close> finds none.\<close>

record store =
  documents :: "sheet option"
  categories :: "sheet option"
  tags :: "sheet option"
  userFavorites :: "sheet option"
  onlineUsers :: "sheet option"
  activityLog :: "sheet option"
  analytics :: "sheet option"

subsection \<open>The request: user, clock, identifiers\<close>

text \<open>
  The result of \<^verbatim>\<open>getCurrentUser()\<close>: the identity the platform resolves for the
  request. It only reads the store. The fields other than \<open>isSignedIn\<close> are present
  only for a signed-in user.
\<close>

record user =
  isSignedIn :: bool
  email :: string
  name :: string
  avatar :: string

text \<open>
  What one request reads from outside the store: the current user, the clock
  (\<^verbatim>\<open>new Date()\<close> and \<^verbatim>\<open>Date.now()\<close>, in milliseconds, one instant for the
  request) and the time-and-random part of the identifiers: \<open>randomId k\<close> is
  what the k-th call of \<^verbatim>\<open>generateId\<close> in the request draws, already in upper case.
  Three functions of the platform depend on its locale and time zone and are taken
  from it: the text of a date, the time a text denotes (\<^verbatim>\<open>Date.parse\<close>, \<open>None\<close> when
  it denotes none) and \<^verbatim>\<open>a.localeCompare(b)\<close> on strings.
\<close>

record env =
  currentUser :: user
  now :: int
  randomId :: "nat \<Rightarrow> string"
  dateString :: "int \<Rightarrow> string"
  parseDate :: "string \<Rightarrow> int option"
  localeCompare :: "string \<Rightarrow> string \<Rightarrow> int"

text \<open>The text of a value, as a template string and a property name take it.\<close>

definition toText :: "env \<Rightarrow> cell \<Rightarrow> string" where
  "toText e v =
     (case v of
        CStr s \<Rightarrow> s
      | CNum n \<Rightarrow> showInt n
      | CBool b \<Rightarrow> (if b then ''true'' else ''false'')
      | CDate t \<Rightarrow> dateString e t
      | CUndef \<Rightarrow> ''undefined'')"

definition sessionTimeout :: int where
  "sessionTimeout = 30"

definition recentActivityLimit :: nat where
  "recentActivityLimit = 20"

definition generateId :: "env \<Rightarrow> nat \<Rightarrow> string \<Rightarrow> string" where
  "generateId e k prefix = prefix @ ''_'' @ randomId e k"

text \<open>
  What an operation returns: \<^verbatim>\<open>{success: false, error: msg}\<close> or
  \<^verbatim>\<open>{success: true, ...}\<close> with the fields of the operation. \<open>JSON\<close> is
  \<^verbatim>\<open>JSON.stringify\<close>: the value is then a string, which \<open>JSON_parse\<close> reads back.
\<close>

datatype 'a result = Failure string | Success 'a

datatype 'a json = JSON 'a

fun JSON_parse :: "'a json \<Rightarrow> 'a" where
  "JSON_parse (JSON x) = x"

subsection \<open>Activity log\<close>

text \<open>\<^verbatim>\<open>logActivity(user, action, docId, details)\<close>; no log sheet, no entry.\<close>

definition activityEntry :: "env \<Rightarrow> nat \<Rightarrow> string \<Rightarrow> string \<Rightarrow> string \<Rightarrow> row" where
  "activityEntry e k action docId details =
     [CStr (generateId e k ''ACT''), CStr (email (currentUser e)), CStr (name (currentUser e)),
      CStr action, CStr docId, CStr details, CDate (now e)]"

definition logActivity :: "env \<Rightarrow> nat \<Rightarrow> string \<Rightarrow> string \<Rightarrow> string \<Rightarrow> store \<Rightarrow> store" where
  "logActivity e k action docId details st =
     (case activityLog st of
        None \<Rightarrow> st
      | Some sh \<Rightarrow> st\<lparr>activityLog := Some (appendRow sh (activityEntry e k action docId details))\<rparr>)"

text \<open>
  The number of identifiers a call of \<open>logActivity\<close> draws: one, for the entry, when the
  log sheet exists.
\<close>

definition logDraws :: "store \<Rightarrow> nat" where
  "logDraws st = (if activityLog st = None then 0 else 1)"

subsection \<open>Deleting the matching rows of a sheet\<close>

text \<open>
  The loop shared by \<^verbatim>\<open>removeFromAllFavorites\<close> and \<^verbatim>\<open>cleanupExpiredSessions\<close>:
  scan the data rows from the last to the second, collect the row numbers that match, then
  delete them in that order.
\<close>

definition rowsToDelete :: "(row \<Rightarrow> bool) \<Rightarrow> row list \<Rightarrow> nat list" where
  "rowsToDelete p data = map Suc (filter (\<lambda>i. p (data ! i)) (rev [1..<length data]))"

definition deleteRows :: "sheet \<Rightarrow> nat list \<Rightarrow> sheet" where
  "deleteRows sh ns = foldl deleteRow sh ns"

subsection \<open>Favorites\<close>

definition getUserFavorites :: "env \<Rightarrow> store \<Rightarrow> cell list result" where
  "getUserFavorites e st =
     (if \<not> isSignedIn (currentUser e) then Failure ''User not authenticated''
      else case userFavorites st of
        None \<Rightarrow> Success []
      | Some sh \<Rightarrow>
          if getLastRow sh \<le> 1 then Success []
          else Success (map (\<lambda>r. at r 2)
                 (filter (\<lambda>r. strictEq (at r 1) (CStr (email (currentUser e))))
                    (drop 1 (getValues sh)))))"

text \<open>\<^verbatim>\<open>row => row[1] === user.email && row[2] === docId\<close>\<close>

definition favoriteRow :: "string \<Rightarrow> string \<Rightarrow> row \<Rightarrow> bool" where
  "favoriteRow mail docId r = (strictEq (at r 1) (CStr mail) \<and> strictEq (at r 2) (CStr docId))"

text \<open>The payload of \<open>toggleFavorite\<close> is the field \<^verbatim>\<open>favorited\<close>.\<close>

definition toggleFavorite :: "env \<Rightarrow> string \<Rightarrow> store \<Rightarrow> bool result json \<times> store" where
  "toggleFavorite e docId st =
     (if \<not> isSignedIn (currentUser e) then (JSON (Failure ''User not authenticated''), st)
      else case userFavorites st of
        None \<Rightarrow> (JSON (Failure ''Database not initialized''), st)
      | Some sh \<Rightarrow>
          (case findIndex (favoriteRow (email (currentUser e)) docId) (getValues sh) of
             Some (Suc i) \<Rightarrow>
               (JSON (Success False),
                logActivity e 0 ''Removed Favorite'' docId ''Removed from favorites''
                  (st\<lparr>userFavorites := Some (deleteRow sh (Suc i + 1))\<rparr>))
           | _ \<Rightarrow>
               (JSON (Success True),
                logActivity e 1 ''Added Favorite'' docId ''Added to favorites''
                  (st\<lparr>userFavorites := Some (appendRow sh
                     [CStr (generateId e 0 ''FAV''), CStr (email (currentUser e)),
                      CStr docId, CDate (now e)])\<rparr>))))"

definition removeFromAllFavorites :: "string \<Rightarrow> store \<Rightarrow> store" where
  "removeFromAllFavorites docId st =
     (case userFavorites st of
        None \<Rightarrow> st
      | Some sh \<Rightarrow>
          if getLastRow sh \<le> 1 then st
          else st\<lparr>userFavorites := Some (deleteRows sh
                 (rowsToDelete (\<lambda>r. strictEq (at r 2) (CStr docId)) (getValues sh)))\<rparr>)"

subsection \<open>Sessions\<close>

text \<open>
  \<^verbatim>\<open>new Date(v)\<close> as a time, \<open>None\<close> for an invalid date. A number is the time
  itself, within the range of dates; a text is parsed by the platform, the empty text
  denoting no date.
\<close>

definition maxTime :: int where
  "maxTime = 8640000000000000"

definition toDate :: "env \<Rightarrow> cell \<Rightarrow> int option" where
  "toDate e v =
     (case v of
        CDate t \<Rightarrow> Some t
      | CNum n \<Rightarrow> (if \<bar>n\<bar> \<le> maxTime then Some n else None)
      | CBool b \<Rightarrow> Some (if b then 1 else 0)
      | CStr s \<Rightarrow> (if s = [] then None else parseDate e s)
      | CUndef \<Rightarrow> None)"

text \<open>\<^verbatim>\<open>new Date(v) < cutoff\<close>: false for an invalid date.\<close>

definition dateBefore :: "env \<Rightarrow> cell \<Rightarrow> int \<Rightarrow> bool" where
  "dateBefore e v cutoff = (case toDate e v of None \<Rightarrow> False | Some t \<Rightarrow> t < cutoff)"

definition cutoffTime :: "env \<Rightarrow> int" where
  "cutoffTime e = now e - sessionTimeout * 60 * 1000"

text \<open>The test of the sweep on a session row: \<^verbatim>\<open>new Date(data[i][4]) < cutoffTime\<close>.\<close>

definition expired :: "env \<Rightarrow> row \<Rightarrow> bool" where
  "expired e r = dateBefore e (at r 4) (cutoffTime e)"

definition cleanupExpiredSessions :: "env \<Rightarrow> sheet \<Rightarrow> sheet" where
  "cleanupExpiredSessions e sh =
     (if getLastRow sh \<le> 1 then sh
      else deleteRows sh (rowsToDelete (expired e) (getValues sh)))"




text \<open>
  \<^verbatim>\<open>xs.sort(cmp)\<close>. For a comparator that orders its arguments consistently the
  result is the stable sort. It is computed as the platform does for a short array: the
  elements are taken from first to last, and each is placed among the earlier ones by
  comparisons in which it is the first argument and an earlier element the second.
  \<open>None\<close> from the comparator is an exception thrown by it, which ends the sort.
  \<open>insertWith\<close> places an element in the earlier ones, kept in descending order:
  behind all that it compares below.
\<close>

fun insertWith :: "('a \<Rightarrow> 'a \<Rightarrow> int option) \<Rightarrow> 'a \<Rightarrow> 'a list \<Rightarrow> 'a list option" where
  "insertWith cmp x [] = Some [x]"
| "insertWith cmp x (y # ys) =
     (case cmp x y of
        None \<Rightarrow> None
      | Some d \<Rightarrow> if d < 0 then map_option ((#) y) (insertWith cmp x ys) else Some (x # y # ys))"

fun sortFrom :: "('a \<Rightarrow> 'a \<Rightarrow> int option) \<Rightarrow> 'a list \<Rightarrow> 'a list \<Rightarrow> 'a list option" where
  "sortFrom cmp earlier [] = Some (rev earlier)"
| "sortFrom cmp earlier (x # xs) =
     (case insertWith cmp x earlier of
        None \<Rightarrow> None
      | Some earlier' \<Rightarrow> sortFrom cmp earlier' xs)"

definition sortWith :: "('a \<Rightarrow> 'a \<Rightarrow> int option) \<Rightarrow> 'a list \<Rightarrow> 'a list option" where
  "sortWith cmp xs = sortFrom cmp [] xs"

text \<open>\<^verbatim>\<open>new Date(a) - new Date(b)\<close>; not a number counts as 0 in a sort.\<close>

definition dateDiff :: "env \<Rightarrow> cell \<Rightarrow> cell \<Rightarrow> int option" where
  "dateDiff e a b =
     (case (toDate e a, toDate e b) of (Some x, Some y) \<Rightarrow> Some (x - y) | _ \<Rightarrow> Some 0)"

text \<open>The text of a caught exception, \<^verbatim>\<open>error.toString()\<close>, where the model has one.\<close>

definition typeError :: string where
  "typeError = ''TypeError''"

definition rangeError :: string where
  "rangeError = ''Exception: The starting column of the range is too small.''"

definition onlineUserOfRow :: "row \<Rightarrow> object" where
  "onlineUserOfRow r =
     [(''email'', at r 1), (''name'', at r 2), (''loginTime'', at r 3),
      (''lastActivity'', at r 4), (''avatar'', at r 5), (''status'', at r 6)]"

definition getOnlineUsers :: "env \<Rightarrow> store \<Rightarrow> object list result json \<times> store" where
  "getOnlineUsers e st =
     (case onlineUsers st of
        None \<Rightarrow> (JSON (Success []), st)
      | Some sh0 \<Rightarrow>
          if getLastRow sh0 \<le> 1 then (JSON (Success []), st)
          else
            let sh = cleanupExpiredSessions e sh0;
                users = map onlineUserOfRow
                          (filter (\<lambda>r. strictEq (at r 6) (CStr ''Online'')) (drop 1 (getValues sh)))
            in (case sortWith (\<lambda>a b. dateDiff e (getProp b ''lastActivity'') (getProp a ''lastActivity'')) users of
                  Some us \<Rightarrow> (JSON (Success us), st\<lparr>onlineUsers := Some sh\<rparr>)
                | None \<Rightarrow> (JSON (Failure typeError), st\<lparr>onlineUsers := Some sh\<rparr>)))"

subsection \<open>Category and tag counters\<close>

text \<open>
  \<^verbatim>\<open>updateCategoryCount(categoryName, delta)\<close>. The search includes the header row;
  a match there, like no match, changes nothing.
\<close>

definition updateCategoryCount :: "cell \<Rightarrow> int \<Rightarrow> store \<Rightarrow> store" where
  "updateCategoryCount categoryName delta st =
     (case categories st of
        None \<Rightarrow> st
      | Some sh \<Rightarrow>
          (case findIndex (\<lambda>r. strictEq (at r 1) categoryName) (getValues sh) of
             Some (Suc i) \<Rightarrow>
               st\<lparr>categories := Some (setValue sh (Suc i + 1) 6
                    (CNum (max 0 (parseIntOr0 (at (getValues sh ! Suc i) 5) + delta))))\<rparr>
           | _ \<Rightarrow> st))"

text \<open>
  \<^verbatim>\<open>updateTagCounts(tagsString, delta)\<close>. The counts are read from the values fetched
  before the loop and written to the sheet tag by tag. A value that is not a string has
  no \<^verbatim>\<open>split\<close>: the exception is caught and nothing is written.
\<close>

definition updateTagCounts :: "cell \<Rightarrow> int \<Rightarrow> store \<Rightarrow> store" where
  "updateTagCounts tagsString delta st =
     (if \<not> truthy tagsString then st
      else case tags st of
        None \<Rightarrow> st
      | Some sh \<Rightarrow>
          (case tagsString of
             CStr s \<Rightarrow>
               let data = getValues sh
               in st\<lparr>tags := Some (foldl
                    (\<lambda>sheet tag.
                       case findIndex (\<lambda>r. strictEq (at r 1) (CStr tag)) data of
                         Some (Suc i) \<Rightarrow>
                           setValue sheet (Suc i + 1) 5
                             (CNum (max 0 (parseIntOr0 (at (data ! Suc i) 4) + delta)))
                       | _ \<Rightarrow> sheet)
                    sh (map trim (splitOn CHR '','' s)))\<rparr>
           | _ \<Rightarrow> st))"

subsection \<open>Documents\<close>

text \<open>
  The argument of \<^verbatim>\<open>addDocument\<close>. The code treats an absent field and an empty
  string alike, so an absent field is the empty string here.
\<close>

record documentData =
  DocumentName :: string
  GoogleDriveURL :: string
  Description :: string
  Category :: string
  Tags :: string

definition isDuplicateURL :: "store \<Rightarrow> string \<Rightarrow> bool" where
  "isDuplicateURL st url =
     (case documents st of
        None \<Rightarrow> False
      | Some sh \<Rightarrow>
          if getLastRow sh \<le> 1 then False
          else list_ex (\<lambda>r. strictEq (at r 2) (CStr url)) (drop 1 sh))"

text \<open>The payload of \<open>addDocument\<close>: the fields \<^verbatim>\<open>docId\<close> and \<^verbatim>\<open>message\<close>.\<close>

definition addDocument ::
  "env \<Rightarrow> documentData \<Rightarrow> store \<Rightarrow> (string \<times> string) result json \<times> store" where
  "addDocument e d st =
     (if \<not> isSignedIn (currentUser e) then (JSON (Failure ''User not authenticated''), st)
      else if DocumentName d = [] \<or> GoogleDriveURL d = [] \<or> Category d = []
      then (JSON (Failure ''Missing required fields''), st)
      else if isDuplicateURL st (GoogleDriveURL d)
      then (JSON (Failure ''A document with this URL already exists''), st)
      else case documents st of
        None \<Rightarrow> (JSON (Failure ''Database not initialized''), st)
      | Some sh \<Rightarrow>
          let docId = generateId e 0 ''DOC'';
              fileType = detectFileType (GoogleDriveURL d);
              newDocument =
                [CStr docId, CStr (DocumentName d), CStr (GoogleDriveURL d), CStr (Description d),
                 CStr (Category d), CStr fileType, CStr (email (currentUser e)), CStr (Tags d),
                 CDate (now e), CDate (now e), CStr ''Active''];
              st1 = st\<lparr>documents := Some (appendRow sh newDocument)\<rparr>;
              st2 = logActivity e 1 ''Created Document'' docId
                      (''Created '' @ [CHR 0x22] @ DocumentName d @ [CHR 0x22]) st1;
              st3 = updateCategoryCount (CStr (Category d)) 1 st2;
              st4 = (if Tags d \<noteq> [] then updateTagCounts (CStr (Tags d)) 1 st3 else st3)
          in (JSON (Success (docId, ''Document added successfully'')), st4))"

text \<open>
  One step of the loop over \<^verbatim>\<open>Object.keys(updates)\<close>: a field that names a column
  and whose new value is defined and differs from the value read before the loop is
  written, and recorded as a change.
\<close>

definition writeField ::
  "row \<Rightarrow> row \<Rightarrow> nat \<Rightarrow> object \<Rightarrow> sheet \<times> string list \<Rightarrow> string \<Rightarrow> sheet \<times> string list" where
  "writeField headers oldRow rowNum updates acc field =
     (case indexOf headers (CStr field) of
        Some colIndex \<Rightarrow>
          if \<not> strictEq (getProp updates field) CUndef
             \<and> \<not> strictEq (at oldRow colIndex) (getProp updates field)
          then (setValue (fst acc) rowNum (colIndex + 1) (getProp updates field),
                snd acc @ [field @ '' updated''])
          else acc
      | None \<Rightarrow> acc)"

text \<open>
  \<^verbatim>\<open>updateDocument(docId, updates)\<close>. The row is searched in all the values, header
  included. Without a column \<open>LastModified\<close> the range of the time stamp starts at
  column 0, which the platform refuses: the exception is caught after the fields were
  written. \<open>updateDocumentCounted\<close> is the function together with the number of
  identifiers it has drawn, which is where a caller that logs afterwards goes on.
\<close>

definition updateDocumentCounted ::
  "env \<Rightarrow> string \<Rightarrow> object \<Rightarrow> store \<Rightarrow> (string result json \<times> store) \<times> nat" where
  "updateDocumentCounted e docId updates st =
     (if \<not> isSignedIn (currentUser e) then ((JSON (Failure ''User not authenticated''), st), 0)
      else case documents st of
        None \<Rightarrow> ((JSON (Failure ''Database not initialized''), st), 0)
      | Some sh \<Rightarrow>
          let data = getValues sh;
              headers = hd data
          in (case findIndex (\<lambda>r. strictEq (at r 0) (CStr docId)) data of
                None \<Rightarrow> ((JSON (Failure ''Document not found''), st), 0)
              | Some rowIndex \<Rightarrow>
                  let oldCategory = atIndex (data ! rowIndex) (indexOf headers (CStr ''Category''));
                      oldTags = atIndex (data ! rowIndex) (indexOf headers (CStr ''Tags''));
                      written = foldl (writeField headers (data ! rowIndex) (rowIndex + 1) updates)
                                  (sh, []) (map fst updates);
                      changes = snd written
                  in (case indexOf headers (CStr ''LastModified'') of
                        None \<Rightarrow> ((JSON (Failure rangeError), st\<lparr>documents := Some (fst written)\<rparr>), 0)
                      | Some c \<Rightarrow>
                          let st1 = st\<lparr>documents := Some
                                      (setValue (fst written) (rowIndex + 1) (c + 1) (CDate (now e)))\<rparr>;
                              st2 = (if truthy (getProp updates ''Category'')
                                        \<and> \<not> strictEq (getProp updates ''Category'') oldCategory
                                     then updateCategoryCount (getProp updates ''Category'') 1
                                            (updateCategoryCount oldCategory (- 1) st1)
                                     else st1);
                              st3 = (if \<not> strictEq (getProp updates ''Tags'') oldTags
                                     then updateTagCounts (getProp updates ''Tags'') 1
                                            (updateTagCounts oldTags (- 1) st2)
                                     else st2);
                              st4 = (if changes \<noteq> []
                                     then logActivity e 0 ''Updated Document'' docId
                                            (joinWith '', '' changes) st3
                                     else st3)
                          in ((JSON (Success ''Document updated successfully''), st4),
                              if changes \<noteq> [] then logDraws st3 else 0))))"

definition updateDocument :: "env \<Rightarrow> string \<Rightarrow> object \<Rightarrow> store \<Rightarrow> string result json \<times> store" where
  "updateDocument e docId updates st = fst (updateDocumentCounted e docId updates st)"

text \<open>
  The wrappers log their own entry after the update; its identifier is the next one of
  the request: the second when the update has logged an entry, the first when it has
  not.
\<close>

definition archiveDocument :: "env \<Rightarrow> string \<Rightarrow> store \<Rightarrow> string result json \<times> store" where
  "archiveDocument e docId st =
     (let ((reply, st1), drawn) = updateDocumentCounted e docId [(''Status'', CStr ''Archived'')] st;
          result = JSON_parse reply
      in (JSON result,
          case result of
            Success m \<Rightarrow> logActivity e drawn ''Archived Document'' docId ''Document archived'' st1
          | Failure m \<Rightarrow> st1))"

definition restoreDocument :: "env \<Rightarrow> string \<Rightarrow> store \<Rightarrow> string result json \<times> store" where
  "restoreDocument e docId st =
     (let ((reply, st1), drawn) = updateDocumentCounted e docId [(''Status'', CStr ''Active'')] st;
          result = JSON_parse reply
      in (JSON result,
          case result of
            Success m \<Rightarrow> logActivity e drawn ''Restored Document'' docId ''Document restored'' st1
          | Failure m \<Rightarrow> st1))"

definition deleteDocument :: "env \<Rightarrow> string \<Rightarrow> store \<Rightarrow> string result json \<times> store" where
  "deleteDocument e docId st =
     (if \<not> isSignedIn (currentUser e) then (JSON (Failure ''User not authenticated''), st)
      else case documents st of
        None \<Rightarrow> (JSON (Failure ''Database not initialized''), st)
      | Some sh \<Rightarrow>
          let data = getValues sh
          in (case findIndex (\<lambda>r. strictEq (at r 0) (CStr docId)) data of
                None \<Rightarrow> (JSON (Failure ''Document not found''), st)
              | Some rowIndex \<Rightarrow>
                  let docName = at (data ! rowIndex) 1;
                      category = at (data ! rowIndex) 4;
                      tagsString = at (data ! rowIndex) 7;
                      st1 = st\<lparr>documents := Some (deleteRow sh (rowIndex + 1))\<rparr>;
                      st2 = updateCategoryCount category (- 1) st1;
                      st3 = (if truthy tagsString then updateTagCounts tagsString (- 1) st2 else st2);
                      st4 = removeFromAllFavorites docId st3;
                      st5 = logActivity e 0 ''Deleted Document'' docId
                              (''Permanently deleted '' @ [CHR 0x22] @ toText e docName @ [CHR 0x22]) st4
                  in (JSON (Success ''Document deleted successfully''), st5)))"

subsection \<open>Listing documents\<close>

text \<open>
  The filters of \<^verbatim>\<open>getDocuments\<close>; an absent list is the empty list, an absent
  \<open>sortBy\<close> the empty string.
\<close>

record filters =
  f_status :: "cell list"
  f_categories :: "cell list"
  f_fileTypes :: "cell list"
  f_sortBy :: string

definition noFilters :: filters where
  "noFilters = \<lparr>f_status = [], f_categories = [], f_fileTypes = [], f_sortBy = []\<rparr>"

definition passesFilters :: "object \<Rightarrow> filters \<Rightarrow> bool" where
  "passesFilters doc f =
     (if f_status f \<noteq> [] \<and> \<not> list_ex (\<lambda>v. strictEq v (getProp doc ''Status'')) (f_status f)
      then False
      else if f_categories f \<noteq> []
              \<and> \<not> list_ex (\<lambda>v. strictEq v (getProp doc ''Category'')) (f_categories f)
      then False
      else if f_fileTypes f \<noteq> []
              \<and> \<not> list_ex (\<lambda>v. strictEq v (getProp doc ''FileType'')) (f_fileTypes f)
      then False
      else True)"

text \<open>\<^verbatim>\<open>a.X.localeCompare(b.X)\<close>: only a string has the method.\<close>

definition compareNames :: "env \<Rightarrow> cell \<Rightarrow> cell \<Rightarrow> int option" where
  "compareNames e a b =
     (case a of CStr s \<Rightarrow> Some (localeCompare e s (toText e b)) | _ \<Rightarrow> None)"

definition getSortFunction :: "env \<Rightarrow> string \<Rightarrow> object \<Rightarrow> object \<Rightarrow> int option" where
  "getSortFunction e sortBy =
     (if sortBy = ''name_asc''
      then (\<lambda>a b. compareNames e (getProp a ''DocumentName'') (getProp b ''DocumentName''))
      else if sortBy = ''name_desc''
      then (\<lambda>a b. compareNames e (getProp b ''DocumentName'') (getProp a ''DocumentName''))
      else if sortBy = ''date_asc''
      then (\<lambda>a b. dateDiff e (getProp a ''DateAdded'') (getProp b ''DateAdded''))
      else (\<lambda>a b. dateDiff e (getProp b ''LastModified'') (getProp a ''LastModified'')))"

text \<open>\<^verbatim>\<open>headers.forEach((header, index) => { doc[header] = data[i][index]; })\<close>\<close>

definition rowObject :: "env \<Rightarrow> row \<Rightarrow> row \<Rightarrow> object" where
  "rowObject e headers r =
     foldl (\<lambda>doc i. setProp (toText e (headers ! i)) (at r i) doc) [] [0..<length headers]"

definition getDocuments :: "env \<Rightarrow> filters \<Rightarrow> store \<Rightarrow> object list result" where
  "getDocuments e f st =
     (case documents st of
        None \<Rightarrow> Success []
      | Some sh \<Rightarrow>
          if getLastRow sh \<le> 1 then Success []
          else
            let data = getValues sh;
                docs = filter (\<lambda>doc. passesFilters doc f) (map (rowObject e (hd data)) (drop 1 data))
            in (case sortWith (getSortFunction e (if f_sortBy f = [] then ''date_desc'' else f_sortBy f)) docs of
                  Some ds \<Rightarrow> Success ds
                | None \<Rightarrow> Failure typeError))"

subsection \<open>Categories, tags, activity and analytics as read by the page\<close>

definition categoryOfRow :: "row \<Rightarrow> object" where
  "categoryOfRow r =
     [(''CategoryID'', at r 0), (''CategoryName'', at r 1), (''CreatedBy'', at r 2),
      (''DateCreated'', at r 3), (''DocumentCount'', if truthy (at r 5) then at r 5 else CNum 0)]"

definition getCategories :: "env \<Rightarrow> store \<Rightarrow> object list result" where
  "getCategories e st =
     (case categories st of
        None \<Rightarrow> Success []
      | Some sh \<Rightarrow>
          if getLastRow sh \<le> 1 then Success []
          else
            (case sortWith (\<lambda>a b. compareNames e (getProp a ''CategoryName'') (getProp b ''CategoryName''))
                    (map categoryOfRow
                       (filter (\<lambda>r. strictEq (at r 4) (CBool True)) (drop 1 (getValues sh)))) of
               Some cs \<Rightarrow> Success cs
             | None \<Rightarrow> Failure typeError))"

definition tagOfRow :: "row \<Rightarrow> object" where
  "tagOfRow r =
     [(''TagID'', at r 0), (''TagName'', at r 1), (''CreatedBy'', at r 2),
      (''DateCreated'', at r 3), (''UsageCount'', if truthy (at r 4) then at r 4 else CNum 0)]"

text \<open>
  The number a value becomes in a subtraction, \<open>None\<close> when it is not a number.
  A text is read as a numeric literal: after trimming, the empty text is 0; a radix
  prefix 0x, 0o or 0b is followed by digits of the radix; otherwise an optional sign is
  followed by \<open>Infinity\<close> or by decimal digits with an optional fraction and an
  optional exponent. \<open>Finite m k\<close> is the number \<open>m\<close> times 10 to the power \<open>k\<close>,
  the exact value the literal denotes (the platform rounds it to a double).
\<close>

datatype number = Finite int int | PlusInfinity | MinusInfinity

definition digitsValue :: "nat \<Rightarrow> string \<Rightarrow> nat option" where
  "digitsValue radix ds =
     (if ds \<noteq> [] \<and> list_all (\<lambda>c. case digitOf c of Some d \<Rightarrow> d < radix | None \<Rightarrow> False) ds
      then leadingDigits radix None ds else None)"

text \<open>The exponent part of a decimal literal: absent, or \<open>e\<close>, a sign and digits.\<close>

definition exponentOf :: "string \<Rightarrow> int option" where
  "exponentOf s =
     (case s of
        [] \<Rightarrow> Some 0
      | c # cs \<Rightarrow>
          if c = CHR ''e'' \<or> c = CHR ''E''
          then (case cs of
                  d # ds \<Rightarrow>
                    if d = CHR ''-'' then map_option (\<lambda>n. - int n) (digitsValue 10 ds)
                    else if d = CHR ''+'' then map_option int (digitsValue 10 ds)
                    else map_option int (digitsValue 10 cs)
                | [] \<Rightarrow> None)
          else None)"

definition unsignedDecimal :: "string \<Rightarrow> number option" where
  "unsignedDecimal s =
     (if s = ''Infinity'' then Some PlusInfinity
      else
        let whole = takeWhile isDigit s;
            rest = dropWhile isDigit s;
            fraction = (case rest of c # cs \<Rightarrow> if c = CHR ''.'' then takeWhile isDigit cs else []
                        | [] \<Rightarrow> []);
            tail = (case rest of c # cs \<Rightarrow> if c = CHR ''.'' then dropWhile isDigit cs else rest
                    | [] \<Rightarrow> [])
        in if whole = [] \<and> fraction = [] then None
           else case exponentOf tail of
                  None \<Rightarrow> None
                | Some ex \<Rightarrow>
                    Some (Finite
                      (int (case leadingDigits 10 None (whole @ fraction) of None \<Rightarrow> 0 | Some n \<Rightarrow> n))
                      (ex - int (length fraction))))"

definition negated :: "number \<Rightarrow> number" where
  "negated x = (case x of Finite m k \<Rightarrow> Finite (- m) k | PlusInfinity \<Rightarrow> MinusInfinity
                | MinusInfinity \<Rightarrow> PlusInfinity)"

definition numberOfString :: "string \<Rightarrow> number option" where
  "numberOfString s =
     (let t = trim s
      in if t = [] then Some (Finite 0 0)
         else if take 2 t = ''0x'' \<or> take 2 t = ''0X''
         then map_option (\<lambda>n. Finite (int n) 0) (digitsValue 16 (drop 2 t))
         else if take 2 t = ''0o'' \<or> take 2 t = ''0O''
         then map_option (\<lambda>n. Finite (int n) 0) (digitsValue 8 (drop 2 t))
         else if take 2 t = ''0b'' \<or> take 2 t = ''0B''
         then map_option (\<lambda>n. Finite (int n) 0) (digitsValue 2 (drop 2 t))
         else case t of
                c # cs \<Rightarrow>
                  if c = CHR ''-'' then map_option negated (unsignedDecimal cs)
                  else if c = CHR ''+'' then unsignedDecimal cs
                  else unsignedDecimal t
              | [] \<Rightarrow> None)"

definition toNumber :: "cell \<Rightarrow> number option" where
  "toNumber v =
     (case v of
        CNum n \<Rightarrow> Some (Finite n 0)
      | CStr s \<Rightarrow> numberOfString s
      | CBool b \<Rightarrow> Some (Finite (if b then 1 else 0) 0)
      | CDate t \<Rightarrow> Some (Finite t 0)
      | CUndef \<Rightarrow> None)"

text \<open>
  The sign of \<^verbatim>\<open>a - b\<close>, which is all a sort reads of it; not a number, as the
  difference of equal infinities is, counts as 0. Two finite numbers are compared at
  the smaller of their two exponents.
\<close>

definition signOfDifference :: "number \<Rightarrow> number \<Rightarrow> int" where
  "signOfDifference x y =
     (case (x, y) of
        (Finite m k, Finite n l) \<Rightarrow>
          (let low = min k l;
               p = m * 10 ^ nat (k - low);
               q = n * 10 ^ nat (l - low)
           in if p < q then - 1 else if q < p then 1 else 0)
      | (Finite m k, PlusInfinity) \<Rightarrow> - 1
      | (Finite m k, MinusInfinity) \<Rightarrow> 1
      | (PlusInfinity, PlusInfinity) \<Rightarrow> 0
      | (PlusInfinity, _) \<Rightarrow> 1
      | (MinusInfinity, MinusInfinity) \<Rightarrow> 0
      | (MinusInfinity, _) \<Rightarrow> - 1)"

definition numberDiff :: "cell \<Rightarrow> cell \<Rightarrow> int option" where
  "numberDiff a b =
     (case (toNumber a, toNumber b) of
        (Some x, Some y) \<Rightarrow> Some (signOfDifference x y)
      | _ \<Rightarrow> Some 0)"

definition getTags :: "store \<Rightarrow> object list result" where
  "getTags st =
     (case tags st of
        None \<Rightarrow> Success []
      | Some sh \<Rightarrow>
          if getLastRow sh \<le> 1 then Success []
          else
            (case sortWith (\<lambda>a b. numberDiff (getProp b ''UsageCount'') (getProp a ''UsageCount''))
                    (map tagOfRow (drop 1 (getValues sh))) of
               Some ts \<Rightarrow> Success ts
             | None \<Rightarrow> Failure typeError))"

definition activityOfRow :: "row \<Rightarrow> object" where
  "activityOfRow r =
     [(''ActivityID'', at r 0), (''UserEmail'', at r 1), (''UserName'', at r 2),
      (''Action'', at r 3), (''DocID'', at r 4), (''Details'', at r 5), (''Timestamp'', at r 6)]"

definition getRecentActivity :: "nat \<Rightarrow> store \<Rightarrow> object list result" where
  "getRecentActivity limit st =
     (case activityLog st of
        None \<Rightarrow> Success []
      | Some sh \<Rightarrow>
          if getLastRow sh \<le> 1 then Success []
          else
            let data = getValues sh
            in Success (map activityOfRow (rev (drop (max 1 (length data - limit)) data))))"

text \<open>
  The analytics object: its field \<open>totalViews\<close>. The other fields are empty containers
  whatever the store holds.
\<close>

definition getAnalyticsData :: "store \<Rightarrow> object result" where
  "getAnalyticsData st =
     (case analytics st of
        None \<Rightarrow> Success [(''totalViews'', CNum 0)]
      | Some sh \<Rightarrow>
          if getLastRow sh \<le> 1 then Success [(''totalViews'', CNum 0)]
          else Success [(''totalViews'', CNum (int (getLastRow sh) - 1))])"

subsection \<open>The first load of the page\<close>

text \<open>
  A field read from what a function returned. From an object with \<open>success: false\<close>
  the data field is absent. From a JSON text, which is a string, every such field is
  absent.
\<close>

definition field :: "'a result \<Rightarrow> 'a option" where
  "field r = (case r of Success x \<Rightarrow> Some x | Failure m \<Rightarrow> None)"

definition fieldOfText :: "'a json \<Rightarrow> 'b option" where
  "fieldOfText t = None"

text \<open>\<^verbatim>\<open>x || d\<close> for an array or object \<open>x\<close>, which is truthy when present.\<close>

definition orDefault :: "'a option \<Rightarrow> 'a \<Rightarrow> 'a" where
  "orDefault x d = (case x of None \<Rightarrow> d | Some v \<Rightarrow> v)"

record initialData =
  r_user :: user
  r_documents :: "object list"
  r_categories :: "object list"
  r_tags :: "object list"
  r_favorites :: "cell list"
  r_recentActivity :: "object list"
  r_onlineUsers :: "object list"
  r_analytics :: object
  r_config :: object

text \<open>
  \<^verbatim>\<open>getInitialData()\<close>. Of the functions it calls only \<open>getOnlineUsers\<close> writes
  (the sweep of the sessions), and none of the others reads that sheet.
\<close>

definition getInitialData :: "env \<Rightarrow> store \<Rightarrow> initialData result json \<times> store" where
  "getInitialData e st =
     (if \<not> isSignedIn (currentUser e) then (JSON (Failure ''User not authenticated''), st)
      else
        let documentsRead = getDocuments e noFilters st;
            categoriesRead = getCategories e st;
            tagsRead = getTags st;
            favoritesRead = getUserFavorites e st;
            activityRead = getRecentActivity recentActivityLimit st;
            (onlineRead, st') = getOnlineUsers e st;
            analyticsRead = getAnalyticsData st'
        in (JSON (Success
              \<lparr>r_user = currentUser e,
               r_documents = orDefault (field documentsRead) [],
               r_categories = orDefault (field categoriesRead) [],
               r_tags = orDefault (field tagsRead) [],
               r_favorites = orDefault (field favoritesRead) [],
               r_recentActivity = orDefault (field activityRead) [],
               r_onlineUsers = orDefault (fieldOfText onlineRead) [],
               r_analytics = orDefault (field analyticsRead) [],
               r_config = [(''appName'', CStr ''Document Center''), (''version'', CStr ''1.0.0'')]\<rparr>),
            st'))"

subsection \<open>What the properties speak of\<close>

text \<open>The data rows of a sheet: all rows but the header; none when the sheet is missing.\<close>

definition dataRows :: "sheet option \<Rightarrow> row list" where
  "dataRows s = (case s of None \<Rightarrow> [] | Some sh \<Rightarrow> drop 1 sh)"

text \<open>A list without the first element that satisfies a predicate.\<close>

fun removeFirst :: "('a \<Rightarrow> bool) \<Rightarrow> 'a list \<Rightarrow> 'a list" where
  "removeFirst p [] = []"
| "removeFirst p (x # xs) = (if p x then xs else x # removeFirst p xs)"

text \<open>The favorite state of a store: the pairs of user and document that have a row.\<close>

definition favoritePairs :: "store \<Rightarrow> (cell \<times> cell) set" where
  "favoritePairs st = set (map (\<lambda>r. (at r 1, at r 2)) (dataRows (userFavorites st)))"

text \<open>
  The entries of a document's tags string: split at the commas, each entry trimmed.
  A cell that holds no string has none.
\<close>

definition tagEntries :: "cell \<Rightarrow> string list" where
  "tagEntries v = (case v of CStr s \<Rightarrow> map trim (splitOn CHR '','' s) | _ \<Rightarrow> [])"

text \<open>The number of document rows that list a tag, and that reference a category.\<close>

definition documentsWithTag :: "store \<Rightarrow> string \<Rightarrow> nat" where
  "documentsWithTag st t =
     length (filter (\<lambda>r. t \<in> set (tagEntries (at r 7))) (dataRows (documents st)))"

definition documentsInCategory :: "store \<Rightarrow> cell \<Rightarrow> nat" where
  "documentsInCategory st c =
     length (filter (\<lambda>r. at r 4 = c) (dataRows (documents st)))"

text \<open>The two counter invariants of the specification.\<close>

definition tagCountsExact :: "store \<Rightarrow> bool" where
  "tagCountsExact st =
     list_all (\<lambda>r. case at r 1 of
                      CStr t \<Rightarrow> at r 4 = CNum (int (documentsWithTag st t))
                    | _ \<Rightarrow> True)
       (dataRows (tags st))"

definition categoryCountsExact :: "store \<Rightarrow> bool" where
  "categoryCountsExact st =
     list_all (\<lambda>r. at r 5 = CNum (int (documentsInCategory st (at r 1))))
       (dataRows (categories st))"

text \<open>
  The columns of the documents sheet that the listing reads by name, at the positions
  where \<open>addDocument\<close> writes them; the names of the other columns are free. The
  header names are pairwise different.
\<close>

definition documentColumns :: "env \<Rightarrow> row \<Rightarrow> bool" where
  "documentColumns e h =
     (distinct (map (toText e) h) \<and> length h = 11
      \<and> h ! 1 = CStr ''DocumentName'' \<and> h ! 5 = CStr ''FileType''
      \<and> h ! 8 = CStr ''DateAdded'' \<and> h ! 9 = CStr ''LastModified''
      \<and> h ! 10 = CStr ''Status'')"

subsection \<open>A small store\<close>

definition ann :: user where
  "ann = \<lparr>isSignedIn = True, email = ''ann@x.org'', name = ''Ann'', avatar = ''owl''\<rparr>"

definition annAt :: "int \<Rightarrow> env" where
  "annAt t = \<lparr>currentUser = ann, now = t, randomId = (\<lambda>k. replicate (Suc k) CHR ''Z''),
              dateString = showInt,
              parseDate = (\<lambda>s. if s = ''1970-01-01T00:00:00.050Z'' then Some 50 else None),
              localeCompare = (\<lambda>a b. 0)\<rparr>"

definition documentsHeader :: row where
  "documentsHeader =
     [CStr ''DocID'', CStr ''DocumentName'', CStr ''GoogleDriveURL'', CStr ''Description'',
      CStr ''Category'', CStr ''FileType'', CStr ''OwnerEmail'', CStr ''Tags'',
      CStr ''DateAdded'', CStr ''LastModified'', CStr ''Status'']"

definition categoriesHeader :: row where
  "categoriesHeader =
     [CStr ''CategoryID'', CStr ''CategoryName'', CStr ''CreatedBy'', CStr ''DateCreated'',
      CStr ''Active'', CStr ''DocumentCount'']"

definition tagsHeader :: row where
  "tagsHeader =
     [CStr ''TagID'', CStr ''TagName'', CStr ''CreatedBy'', CStr ''DateCreated'', CStr ''UsageCount'']"

definition favoritesHeader :: row where
  "favoritesHeader = [CStr ''FavoriteID'', CStr ''UserEmail'', CStr ''DocID'', CStr ''DateAdded'']"

definition sessionsHeader :: row where
  "sessionsHeader =
     [CStr ''SessionID'', CStr ''UserEmail'', CStr ''UserName'', CStr ''LoginTime'',
      CStr ''LastActivity'', CStr ''Avatar'', CStr ''Status'']"

definition activityHeader :: row where
  "activityHeader =
     [CStr ''ActivityID'', CStr ''UserEmail'', CStr ''UserName'', CStr ''Action'',
      CStr ''DocID'', CStr ''Details'', CStr ''Timestamp'']"

definition budget :: row where
  "budget =
     [CStr ''DOC_1'', CStr ''Budget'', CStr ''https://x.org/b'', CStr [], CStr ''Finance'',
      CStr ''Website'', CStr ''ann@x.org'', CStr ''urgent'', CDate 10, CDate 10, CStr ''Active'']"

definition finance :: row where
  "finance = [CStr ''CAT_1'', CStr ''Finance'', CStr ''ann@x.org'', CDate 1, CBool True, CNum 1]"

definition urgent :: row where
  "urgent = [CStr ''TAG_1'', CStr ''urgent'', CStr ''ann@x.org'', CDate 1, CNum 1]"

definition annFav :: row where
  "annFav = [CStr ''FAV_1'', CStr ''ann@x.org'', CStr ''DOC_1'', CDate 5]"

definition bobFav :: row where
  "bobFav = [CStr ''FAV_2'', CStr ''bob@x.org'', CStr ''DOC_1'', CDate 6]"

definition bobSession :: "int \<Rightarrow> row" where
  "bobSession t =
     [CStr ''SES_1'', CStr ''bob@x.org'', CStr ''Bob'', CDate t, CDate t, CStr ''fox'', CStr ''Online'']"



text \<open>
  One document in one category with one tag, both counters at 1; the favorites and the
  sessions are given.
\<close>

definition library :: "row list \<Rightarrow> row list \<Rightarrow> store" where
  "library favs sessions =
     \<lparr>documents = Some [documentsHeader, budget],
      categories = Some [categoriesHeader, finance],
      tags = Some [tagsHeader, urgent],
      userFavorites = Some (favoritesHeader # favs),
      onlineUsers = Some (sessionsHeader # sessions),
      activityLog = Some [activityHeader],
      analytics = None\<rparr>"

definition q1Report :: documentData where
  "q1Report =
     \<lparr>DocumentName = ''Q1 Report'', GoogleDriveURL = ''https://docs.google.com/document/d/abc'',
      Description = [], Category = ''Finance'', Tags = []\<rparr>"

text \<open>A second document with the URL of the first, and the store with the first archived.\<close>

definition budgetCopy :: documentData where
  "budgetCopy =
     \<lparr>DocumentName = ''Copy'', GoogleDriveURL = ''https://x.org/b'', Description = [],
      Category = ''Finance'', Tags = []\<rparr>"

definition archivedLibrary :: store where
  "archivedLibrary = (library [] [])\<lparr>documents := Some [documentsHeader, budget[10 := CStr ''Archived'']]\<rparr>"


text \<open>The row that \<open>addDocument\<close> writes for the report.\<close>

definition q1Row :: "env \<Rightarrow> row" where
  "q1Row e =
     [CStr (generateId e 0 ''DOC''), CStr ''Q1 Report'',
      CStr ''https://docs.google.com/document/d/abc'', CStr [], CStr ''Finance'',
      CStr ''Google Doc'', CStr (email (currentUser e)), CStr [],
      CDate (now e), CDate (now e), CStr ''Active'']"


section \<open>Properties\<close>

subsection \<open>Searching and deleting rows\<close>

lemma findIndex_None_iff: "findIndex p xs = None \<longleftrightarrow> (\<forall>x \<in> set xs. \<not> p x)"
  by (induction xs) auto


lemma findIndex_Some_first:
  "findIndex p xs = Some i \<Longrightarrow> j < i \<Longrightarrow> \<not> p (xs ! j)"
proof (induction xs arbitrary: i j)
  case Nil
  then show ?case by simp
next
  case (Cons x xs)
  then show ?case by (cases j) (auto split: if_splits)
qed

lemma rowsToDelete_snoc:
  "rowsToDelete p (h # rs @ [r]) =
     (if p r then [length rs + 2] else []) @ rowsToDelete p (h # rs)"
proof -
  have "filter (\<lambda>i. p ((h # rs @ [r]) ! i)) (rev [1..<Suc (length rs)])
        = filter (\<lambda>i. p ((h # rs) ! i)) (rev [1..<Suc (length rs)])"
    by (rule filter_cong) (auto simp: nth_append nth_Cons split: nat.splits)
  then show ?thesis
    by (simp add: rowsToDelete_def nth_append)
qed

lemma deleteRow_mid: "deleteRow (h # rs @ r # rest) (Suc (Suc (length rs))) = h # rs @ rest"
  by (simp add: deleteRow_def)

lemma deleteRows_matching_append:
  "deleteRows (h # rows @ rest) (rowsToDelete p (h # rows)) = h # filter (\<lambda>r. \<not> p r) rows @ rest"
proof (induction rows arbitrary: rest rule: rev_induct)
  case Nil
  then show ?case by (simp add: rowsToDelete_def deleteRows_def)
next
  case (snoc r rs)
  show ?case
  proof (cases "p r")
    case True
    then show ?thesis
      using snoc [of rest] by (simp add: rowsToDelete_snoc deleteRows_def deleteRow_mid)
  next
    case False
    then show ?thesis
      using snoc [of "r # rest"] by (simp add: rowsToDelete_snoc deleteRows_def)
  qed
qed

lemma deleteRows_matching:
  "deleteRows (h # rows) (rowsToDelete p (h # rows)) = h # filter (\<lambda>r. \<not> p r) rows"
  using deleteRows_matching_append [of h rows "[]" p] by simp


lemma strictEq_CStr [simp]: "strictEq c (CStr s) = (c = CStr s)"
  by (cases c) auto

lemma findIndex_exists: "\<exists>x \<in> set xs. p x \<Longrightarrow> \<exists>i. findIndex p xs = Some i"
  by (induction xs) auto

lemma deleteRow_found:
  "findIndex p rows = Some i \<Longrightarrow> deleteRow (h # rows) (Suc i + 1) = h # removeFirst p rows"
proof (induction rows arbitrary: i h)
  case Nil
  then show ?case by simp
next
  case (Cons r rows)
  show ?case
  proof (cases "p r")
    case True
    with Cons.prems show ?thesis by (simp add: deleteRow_def)
  next
    case False
    with Cons.prems obtain j where j: "findIndex p rows = Some j" "i = Suc j"
      by auto
    from Cons.IH [OF j(1), of r] j(2) False show ?thesis
      by (simp add: deleteRow_def)
  qed
qed

lemma removeFirst_append_new:
  "\<forall>x \<in> set xs. \<not> p x \<Longrightarrow> p y \<Longrightarrow> removeFirst p (xs @ [y]) = xs"
  by (induction xs) auto

lemma removeFirst_none:
  "length (filter p xs) = 1 \<Longrightarrow> filter p (removeFirst p xs) = []"
  by (induction xs) (simp_all split: if_splits)

lemma removeFirst_set:
  "\<exists>x \<in> set xs. p x \<Longrightarrow> \<exists>y. p y \<and> set xs = insert y (set (removeFirst p xs))"
proof (induction xs)
  case Nil
  then show ?case by simp
next
  case (Cons x xs)
  show ?case
  proof (cases "p x")
    case True
    then have "p x \<and> set (x # xs) = insert x (set (removeFirst p (x # xs)))"
      by simp
    then show ?thesis ..
  next
    case False
    with Cons.prems have "\<exists>x \<in> set xs. p x" by simp
    from Cons.IH [OF this] obtain y where y: "p y" and s: "set xs = insert y (set (removeFirst p xs))"
      by blast
    have "set (x # xs) = insert x (insert y (set (removeFirst p xs)))"
      using s by simp
    also have "\<dots> = insert y (set (removeFirst p (x # xs)))"
      using False by (simp add: insert_commute)
    finally show ?thesis using y by blast
  qed
qed


subsection \<open>Writing cells, sorting, and the sweep of the sessions\<close>


lemma cleanup_Nil_iff: "cleanupExpiredSessions e sh = [] \<longleftrightarrow> sh = []"
proof (cases sh)
  case Nil
  then show ?thesis by (simp add: cleanupExpiredSessions_def getLastRow_def)
next
  case (Cons h rows)
  then show ?thesis
    by (cases rows)
       (simp_all add: cleanupExpiredSessions_def getLastRow_def getValues_def deleteRows_matching)
qed





lemma setValue_in_range:
  "1 \<le> n \<Longrightarrow> n \<le> length sh \<Longrightarrow>
   setValue sh n c v
     = sh[n - 1 := (sh ! (n - 1) @ replicate (c - length (sh ! (n - 1))) (CStr []))[c - 1 := v]]"
  by (simp add: setValue_def Let_def)




lemma length_written: "1 \<le> c \<Longrightarrow> c \<le> length ((r @ replicate (c - length r) x)[c - 1 := v])"
  by simp




lemma insertWith_set: "insertWith cmp x ys = Some zs \<Longrightarrow> set zs = insert x (set ys)"
  by (induction ys arbitrary: zs) (auto split: option.splits if_splits)

lemma insertWith_count:
  "insertWith cmp x ys = Some zs \<Longrightarrow> length (filter P zs) = length (filter P (x # ys))"
  by (induction ys arbitrary: zs) (auto split: option.splits if_splits)

lemma sortFrom_set: "sortFrom cmp earlier xs = Some ys \<Longrightarrow> set ys = set earlier \<union> set xs"
proof (induction xs arbitrary: earlier)
  case Nil
  then show ?case by auto
next
  case (Cons x xs)
  then obtain zs where zs: "insertWith cmp x earlier = Some zs" "sortFrom cmp zs xs = Some ys"
    by (auto split: option.splits)
  from Cons.IH [OF zs(2)] insertWith_set [OF zs(1)] show ?case
    by auto
qed

lemma sortFrom_count:
  "sortFrom cmp earlier xs = Some ys \<Longrightarrow>
   length (filter P ys) = length (filter P earlier) + length (filter P xs)"
proof (induction xs arbitrary: earlier)
  case Nil
  then have "ys = rev earlier" by simp
  then show ?case by (simp add: rev_filter [symmetric])
next
  case (Cons x xs)
  then obtain zs where zs: "insertWith cmp x earlier = Some zs" "sortFrom cmp zs xs = Some ys"
    by (auto split: option.splits)
  from Cons.IH [OF zs(2)] insertWith_count [OF zs(1), of P] show ?case
    by simp
qed

lemma sortWith_set: "sortWith cmp xs = Some ys \<Longrightarrow> set ys = set xs"
  using sortFrom_set [of cmp "[]" xs ys] by (simp add: sortWith_def)

lemma sortWith_count:
  "sortWith cmp xs = Some ys \<Longrightarrow> length (filter P ys) = length (filter P xs)"
  using sortFrom_count [of cmp "[]" xs ys P] by (simp add: sortWith_def)

lemma insertWith_total:
  "(\<And>a b. cmp a b \<noteq> None) \<Longrightarrow> insertWith cmp x ys \<noteq> None"
proof (induction ys)
  case Nil
  then show ?case by simp
next
  case (Cons y ys)
  from Cons.prems [of x y] obtain d where "cmp x y = Some d" by auto
  with Cons show ?case by auto
qed

lemma sortFrom_total:
  assumes "\<And>a b. cmp a b \<noteq> None"
  shows "sortFrom cmp earlier xs \<noteq> None"
proof (induction xs arbitrary: earlier)
  case Nil
  then show ?case by simp
next
  case (Cons x xs)
  from insertWith_total [of cmp x earlier] assms
  obtain zs where "insertWith cmp x earlier = Some zs" by auto
  with Cons [of zs] show ?case by simp
qed

lemma sortWith_total:
  assumes "\<And>a b. cmp a b \<noteq> None"
  shows "sortWith cmp xs \<noteq> None"
  using sortFrom_total [of cmp "[]" xs] assms by (simp add: sortWith_def)

lemma dateDiff_total: "dateDiff e a b \<noteq> None"
  by (simp add: dateDiff_def split: option.split)

subsection \<open>Which sheets an operation writes\<close>

lemma logActivity_frame [simp]:
  "documents (logActivity e k a d t st) = documents st"
  "categories (logActivity e k a d t st) = categories st"
  "tags (logActivity e k a d t st) = tags st"
  "userFavorites (logActivity e k a d t st) = userFavorites st"
  "onlineUsers (logActivity e k a d t st) = onlineUsers st"
  by (simp_all add: logActivity_def split: option.split)

lemma logActivity_log:
  "activityLog (logActivity e k a d t st)
     = map_option (\<lambda>sh. sh @ [activityEntry e k a d t]) (activityLog st)"
  by (simp add: logActivity_def appendRow_def split: option.split)

lemma updateCategoryCount_frame [simp]:
  "documents (updateCategoryCount c n st) = documents st"
  "tags (updateCategoryCount c n st) = tags st"
  "userFavorites (updateCategoryCount c n st) = userFavorites st"
  "onlineUsers (updateCategoryCount c n st) = onlineUsers st"
  "activityLog (updateCategoryCount c n st) = activityLog st"
  by (simp_all add: updateCategoryCount_def split: option.split nat.split)

lemma updateTagCounts_frame [simp]:
  "documents (updateTagCounts c n st) = documents st"
  "categories (updateTagCounts c n st) = categories st"
  "userFavorites (updateTagCounts c n st) = userFavorites st"
  "onlineUsers (updateTagCounts c n st) = onlineUsers st"
  "activityLog (updateTagCounts c n st) = activityLog st"
  by (simp_all add: updateTagCounts_def Let_def split: option.split cell.split)

lemma removeFromAllFavorites_frame [simp]:
  "documents (removeFromAllFavorites d st) = documents st"
  "categories (removeFromAllFavorites d st) = categories st"
  "tags (removeFromAllFavorites d st) = tags st"
  "onlineUsers (removeFromAllFavorites d st) = onlineUsers st"
  "activityLog (removeFromAllFavorites d st) = activityLog st"
  by (simp_all add: removeFromAllFavorites_def split: option.split)


subsection \<open>Favorites\<close>

lemma toggle_remove:
  assumes "isSignedIn (currentUser e)" "userFavorites st = Some (h # rows)"
      and "\<not> favoriteRow (email (currentUser e)) d h"
      and "\<exists>r \<in> set rows. favoriteRow (email (currentUser e)) d r"
  shows "fst (toggleFavorite e d st) = JSON (Success False)"
    and "userFavorites (snd (toggleFavorite e d st))
           = Some (h # removeFirst (favoriteRow (email (currentUser e)) d) rows)"
proof -
  from assms(4) obtain i where i: "findIndex (favoriteRow (email (currentUser e)) d) rows = Some i"
    using findIndex_exists [of rows "favoriteRow (email (currentUser e)) d"] by auto
  with assms(1-3) show "fst (toggleFavorite e d st) = JSON (Success False)"
    by (simp add: toggleFavorite_def getValues_def)
  from i assms(1-3) deleteRow_found [OF i, of h]
  show "userFavorites (snd (toggleFavorite e d st))
           = Some (h # removeFirst (favoriteRow (email (currentUser e)) d) rows)"
    by (simp add: toggleFavorite_def getValues_def logActivity_def split: option.split)
qed

lemma toggle_add:
  assumes "isSignedIn (currentUser e)" "userFavorites st = Some (h # rows)"
      and "\<not> favoriteRow (email (currentUser e)) d h"
      and "\<not> (\<exists>r \<in> set rows. favoriteRow (email (currentUser e)) d r)"
  shows "fst (toggleFavorite e d st) = JSON (Success True)"
    and "userFavorites (snd (toggleFavorite e d st))
           = Some (h # rows @ [[CStr (generateId e 0 ''FAV''), CStr (email (currentUser e)),
                                CStr d, CDate (now e)]])"
proof -
  from assms(4) have i: "findIndex (favoriteRow (email (currentUser e)) d) rows = None"
    by (simp add: findIndex_None_iff)
  with assms(1-3) show "fst (toggleFavorite e d st) = JSON (Success True)"
    by (simp add: toggleFavorite_def getValues_def)
  from i assms(1-3)
  show "userFavorites (snd (toggleFavorite e d st))
           = Some (h # rows @ [[CStr (generateId e 0 ''FAV''), CStr (email (currentUser e)),
                                CStr d, CDate (now e)]])"
    by (simp add: toggleFavorite_def getValues_def logActivity_def appendRow_def split: option.split)
qed

text \<open>
  C7. For a signed-in user and a document id, with a favorites sheet whose header is
  not itself a row of that user and document: when a favorite row of the pair exists,
  \<open>toggleFavorite\<close> deletes the first one and returns \<open>favorited = false\<close>; when none
  exists it appends one and returns \<open>favorited = true\<close>. Toggling twice from not
  favorited returns true, then false, and leaves the favorites sheet as it was; toggling
  twice from the one row of the pair returns false, then true, and leaves the set of
  favorite pairs as it was.
\<close>

theorem C7_toggleFavorite:
  assumes signed: "isSignedIn (currentUser e)"
      and same: "currentUser e' = currentUser e"
      and sheet: "userFavorites st = Some (h # rows)"
      and hdr: "\<not> favoriteRow (email (currentUser e)) d h"
  shows
   "((\<exists>r \<in> set rows. favoriteRow (email (currentUser e)) d r) \<longrightarrow>
        fst (toggleFavorite e d st) = JSON (Success False)
      \<and> userFavorites (snd (toggleFavorite e d st))
          = Some (h # removeFirst (favoriteRow (email (currentUser e)) d) rows))
    \<and> (\<not> (\<exists>r \<in> set rows. favoriteRow (email (currentUser e)) d r) \<longrightarrow>
        fst (toggleFavorite e d st) = JSON (Success True)
      \<and> userFavorites (snd (toggleFavorite e d st))
          = Some (h # rows @ [[CStr (generateId e 0 ''FAV''), CStr (email (currentUser e)),
                               CStr d, CDate (now e)]])
      \<and> fst (toggleFavorite e' d (snd (toggleFavorite e d st))) = JSON (Success False)
      \<and> userFavorites (snd (toggleFavorite e' d (snd (toggleFavorite e d st)))) = userFavorites st)
    \<and> (length (filter (favoriteRow (email (currentUser e)) d) rows) = 1 \<longrightarrow>
        fst (toggleFavorite e d st) = JSON (Success False)
      \<and> fst (toggleFavorite e' d (snd (toggleFavorite e d st))) = JSON (Success True)
      \<and> favoritePairs (snd (toggleFavorite e' d (snd (toggleFavorite e d st)))) = favoritePairs st)"
proof (intro conjI impI)
  let ?p = "favoriteRow (email (currentUser e)) d"
  let ?new = "[CStr (generateId e 0 ''FAV''), CStr (email (currentUser e)), CStr d, CDate (now e)]"
  let ?st1 = "snd (toggleFavorite e d st)"
  have signed': "isSignedIn (currentUser e')" and hdr': "\<not> favoriteRow (email (currentUser e')) d h"
    using signed same hdr by simp_all
  {
    assume ex: "\<exists>r \<in> set rows. ?p r"
    from toggle_remove [OF signed sheet hdr ex]
    show "fst (toggleFavorite e d st) = JSON (Success False)"
      and "userFavorites ?st1 = Some (h # removeFirst ?p rows)"
      by simp_all
  }
  {
    assume no: "\<not> (\<exists>r \<in> set rows. ?p r)"
    note add = toggle_add [OF signed sheet hdr no]
    from add show "fst (toggleFavorite e d st) = JSON (Success True)"
      and "userFavorites ?st1 = Some (h # rows @ [?new])"
      by simp_all
    have new: "?p ?new"
      by (simp add: favoriteRow_def at_def)
    then have ex1: "\<exists>r \<in> set (rows @ [?new]). favoriteRow (email (currentUser e')) d r"
      using same by simp
    from add(2) have sheet1: "userFavorites ?st1 = Some (h # (rows @ [?new]))"
      by simp
    note rem = toggle_remove [OF signed' sheet1 hdr' ex1]
    from rem(1) show "fst (toggleFavorite e' d ?st1) = JSON (Success False)" .
    from no new have "removeFirst ?p (rows @ [?new]) = rows"
      by (intro removeFirst_append_new) auto
    with rem(2) same sheet
    show "userFavorites (snd (toggleFavorite e' d ?st1)) = userFavorites st"
      by simp
  }
  {
    assume one: "length (filter ?p rows) = 1"
    then have ex: "\<exists>r \<in> set rows. ?p r"
      by (metis filter_False length_0_conv zero_neq_one)
    note rem = toggle_remove [OF signed sheet hdr ex]
    from rem(1) show "fst (toggleFavorite e d st) = JSON (Success False)" .
    from removeFirst_none [OF one]
    have no1: "\<not> (\<exists>r \<in> set (removeFirst ?p rows). favoriteRow (email (currentUser e')) d r)"
      using same by (simp add: filter_empty_conv)
    note add = toggle_add [OF signed' rem(2) hdr' no1]
    from add(1) show "fst (toggleFavorite e' d ?st1) = JSON (Success True)" .
    from removeFirst_set [OF ex] obtain y where y: "?p y"
      and s: "set rows = insert y (set (removeFirst ?p rows))"
      by blast
    from y have pair: "(at y 1, at y 2) = (CStr (email (currentUser e)), CStr d)"
      by (simp add: favoriteRow_def)
    have "favoritePairs st = (\<lambda>r. (at r 1, at r 2)) ` set rows"
      using sheet by (simp add: favoritePairs_def dataRows_def)
    also have "\<dots> = insert (CStr (email (currentUser e)), CStr d)
                       ((\<lambda>r. (at r 1, at r 2)) ` set (removeFirst ?p rows))"
      using s pair by simp
    also have "\<dots> = favoritePairs (snd (toggleFavorite e' d ?st1))"
      using add(2) same by (simp add: favoritePairs_def dataRows_def at_def)
    finally show "favoritePairs (snd (toggleFavorite e' d ?st1)) = favoritePairs st"
      by simp
  }
qed

theorem C7_toggleFavorite_witness:
  "isSignedIn (currentUser (annAt 100))
   \<and> currentUser (annAt 200) = currentUser (annAt 100)
   \<and> userFavorites (library [bobFav] []) = Some (favoritesHeader # [bobFav])
   \<and> \<not> favoriteRow (email (currentUser (annAt 100))) ''DOC_1'' favoritesHeader
   \<and> \<not> (\<exists>r \<in> set [bobFav]. favoriteRow (email (currentUser (annAt 100))) ''DOC_1'' r)
   \<and> fst (toggleFavorite (annAt 100) ''DOC_1'' (library [bobFav] [])) = JSON (Success True)
   \<and> fst (toggleFavorite (annAt 200) ''DOC_1''
            (snd (toggleFavorite (annAt 100) ''DOC_1'' (library [bobFav] [])))) = JSON (Success False)
   \<and> userFavorites (snd (toggleFavorite (annAt 200) ''DOC_1''
            (snd (toggleFavorite (annAt 100) ''DOC_1'' (library [bobFav] [])))))
       = userFavorites (library [bobFav] [])
   \<and> length (filter (favoriteRow (email (currentUser (annAt 100))) ''DOC_1'') [bobFav, annFav]) = 1
   \<and> fst (toggleFavorite (annAt 100) ''DOC_1'' (library [bobFav, annFav] [])) = JSON (Success False)
   \<and> favoritePairs (snd (toggleFavorite (annAt 200) ''DOC_1''
            (snd (toggleFavorite (annAt 100) ''DOC_1'' (library [bobFav, annFav] [])))))
       = favoritePairs (library [bobFav, annFav] [])"
proof -
  have a: "isSignedIn (currentUser (annAt 100))"
    and b: "currentUser (annAt 200) = currentUser (annAt 100)"
    and c: "userFavorites (library rows []) = Some (favoritesHeader # rows)"
    and d: "\<not> favoriteRow (email (currentUser (annAt 100))) ''DOC_1'' favoritesHeader"
    for rows
    by (simp_all add: annAt_def ann_def library_def favoriteRow_def favoritesHeader_def at_def)
  have n: "\<not> (\<exists>r \<in> set [bobFav]. favoriteRow (email (currentUser (annAt 100))) ''DOC_1'' r)"
    by (simp add: annAt_def ann_def favoriteRow_def bobFav_def at_def)
  have one: "length (filter (favoriteRow (email (currentUser (annAt 100))) ''DOC_1'') [bobFav, annFav]) = 1"
    by (simp add: annAt_def ann_def favoriteRow_def bobFav_def annFav_def at_def)
  note absent = C7_toggleFavorite [OF a b c [of "[bobFav]"] d]
  note present = C7_toggleFavorite [OF a b c [of "[bobFav, annFav]"] d]
  show ?thesis
    using a b c [of "[bobFav]"] d n one absent present by blast
qed
subsection \<open>Sessions\<close>

lemma findIndex_Some_bounds: "findIndex p xs = Some i \<Longrightarrow> i < length xs \<and> p (xs ! i)"
  by (induction xs arbitrary: i) (auto split: if_splits)














subsection \<open>Deleting a document\<close>

lemma removeFromAllFavorites_rows:
  "dataRows (userFavorites (removeFromAllFavorites d st))
     = filter (\<lambda>r. at r 2 \<noteq> CStr d) (dataRows (userFavorites st))"
proof (cases "userFavorites st")
  case None
  then show ?thesis by (simp add: removeFromAllFavorites_def dataRows_def)
next
  case (Some sh)
  show ?thesis
  proof (cases sh)
    case Nil
    with Some show ?thesis
      by (simp add: removeFromAllFavorites_def dataRows_def getLastRow_def)
  next
    case (Cons h rows)
    with Some show ?thesis
      by (cases rows)
         (simp_all add: removeFromAllFavorites_def dataRows_def getLastRow_def getValues_def
            deleteRows_matching)
  qed
qed

lemma getUserFavorites_ids:
  "set (orDefault (field (getUserFavorites e st)) []) \<subseteq> (\<lambda>r. at r 2) ` set (dataRows (userFavorites st))"
proof (cases "userFavorites st")
  case None
  then show ?thesis by (simp add: getUserFavorites_def orDefault_def field_def)
next
  case (Some sh)
  then show ?thesis
    by (cases sh)
       (auto simp: getUserFavorites_def orDefault_def field_def dataRows_def getValues_def getLastRow_def)
qed

text \<open>
  C5. For a signed-in user and a document id that a data row of the documents sheet
  carries (and the header does not): \<open>deleteDocument\<close> succeeds and removes the first
  row with that id, so that no row with the id remains when it was the only one; and no
  favorite row of any user references the id afterwards, so the favorite ids read for
  any user do not contain it.
\<close>

theorem C5_deleteDocument:
  assumes signed: "isSignedIn (currentUser e)"
      and docs: "documents st = Some (h # rows)"
      and hdr: "at h 0 \<noteq> CStr docId"
      and present: "\<exists>r \<in> set rows. at r 0 = CStr docId"
  shows "fst (deleteDocument e docId st) = JSON (Success ''Document deleted successfully'')
    \<and> documents (snd (deleteDocument e docId st))
        = Some (h # removeFirst (\<lambda>r. at r 0 = CStr docId) rows)
    \<and> (length (filter (\<lambda>r. at r 0 = CStr docId) rows) = 1 \<longrightarrow>
          \<not> (\<exists>r \<in> set (dataRows (documents (snd (deleteDocument e docId st)))). at r 0 = CStr docId))
    \<and> \<not> (\<exists>r \<in> set (dataRows (userFavorites (snd (deleteDocument e docId st)))). at r 2 = CStr docId)
    \<and> (\<forall>e'. CStr docId \<notin> set (orDefault (field (getUserFavorites e' (snd (deleteDocument e docId st)))) []))"
proof -
  let ?p = "\<lambda>r. at r 0 = CStr docId"
  let ?st' = "snd (deleteDocument e docId st)"
  from present obtain i where i: "findIndex ?p rows = Some i"
    using findIndex_exists [of rows ?p] by auto
  with hdr have idx: "findIndex ?p (h # rows) = Some (Suc i)"
    by simp
  have del: "deleteRow (h # rows) (Suc (Suc i)) = h # removeFirst ?p rows"
    using deleteRow_found [OF i, of h] by simp
  from signed docs idx
  have res: "fst (deleteDocument e docId st) = JSON (Success ''Document deleted successfully'')"
    by (simp add: deleteDocument_def getValues_def Let_def)
  from signed docs idx del
  have sheet: "documents ?st' = Some (h # removeFirst ?p rows)"
    by (simp add: deleteDocument_def getValues_def Let_def)
  have gone: "\<not> (\<exists>r \<in> set (dataRows (documents ?st')). ?p r)"
    if "length (filter ?p rows) = 1"
    using removeFirst_none [OF that] sheet by (simp add: dataRows_def filter_empty_conv)
  from signed docs idx
  have "dataRows (userFavorites ?st')
          = filter (\<lambda>r. at r 2 \<noteq> CStr docId) (dataRows (userFavorites st))"
    by (simp add: deleteDocument_def getValues_def Let_def removeFromAllFavorites_rows)
  then have favs: "\<not> (\<exists>r \<in> set (dataRows (userFavorites ?st')). at r 2 = CStr docId)"
    by simp
  have ids: "CStr docId \<notin> set (orDefault (field (getUserFavorites e' ?st')) [])" for e'
  proof
    assume "CStr docId \<in> set (orDefault (field (getUserFavorites e' ?st')) [])"
    with getUserFavorites_ids [of e' ?st']
    have "CStr docId \<in> (\<lambda>r. at r 2) ` set (dataRows (userFavorites ?st'))"
      by (rule_tac subsetD)
    with favs show False by (metis imageE)
  qed
  from res sheet gone favs ids show ?thesis
    by blast
qed

theorem C5_deleteDocument_witness:
  "isSignedIn (currentUser (annAt 100))
   \<and> documents (library [bobFav, annFav] []) = Some (documentsHeader # [budget])
   \<and> at documentsHeader 0 \<noteq> CStr ''DOC_1''
   \<and> (\<exists>r \<in> set [budget]. at r 0 = CStr ''DOC_1'')
   \<and> length (filter (\<lambda>r. at r 0 = CStr ''DOC_1'') [budget]) = 1
   \<and> dataRows (userFavorites (library [bobFav, annFav] [])) = [bobFav, annFav]
   \<and> fst (deleteDocument (annAt 100) ''DOC_1'' (library [bobFav, annFav] []))
       = JSON (Success ''Document deleted successfully'')
   \<and> documents (snd (deleteDocument (annAt 100) ''DOC_1'' (library [bobFav, annFav] [])))
       = Some [documentsHeader]
   \<and> \<not> (\<exists>r \<in> set (dataRows (userFavorites
            (snd (deleteDocument (annAt 100) ''DOC_1'' (library [bobFav, annFav] []))))).
          at r 2 = CStr ''DOC_1'')
   \<and> CStr ''DOC_1'' \<notin> set (orDefault (field (getUserFavorites (annAt 200)
            (snd (deleteDocument (annAt 100) ''DOC_1'' (library [bobFav, annFav] []))))) [])"
proof -
  have a: "isSignedIn (currentUser (annAt 100))"
    by (simp add: annAt_def ann_def)
  have b: "documents (library [bobFav, annFav] []) = Some (documentsHeader # [budget])"
    and f: "dataRows (userFavorites (library [bobFav, annFav] [])) = [bobFav, annFav]"
    by (simp_all add: library_def dataRows_def)
  have c: "at documentsHeader 0 \<noteq> CStr ''DOC_1''"
    by (simp add: documentsHeader_def at_def)
  have d: "\<exists>r \<in> set [budget]. at r 0 = CStr ''DOC_1''"
    and one: "length (filter (\<lambda>r. at r 0 = CStr ''DOC_1'') [budget]) = 1"
    by (simp_all add: budget_def at_def)
  note del = C5_deleteDocument [OF a b c d]
  have rem: "removeFirst (\<lambda>r. at r 0 = CStr ''DOC_1'') [budget] = []"
    by (simp add: budget_def at_def)
  have g: "documents (snd (deleteDocument (annAt 100) ''DOC_1'' (library [bobFav, annFav] [])))
       = Some [documentsHeader]"
    unfolding del [THEN conjunct2, THEN conjunct1] rem ..
  show ?thesis
    using a b c d one f g del by blast
qed
subsection \<open>Adding a document\<close>

lemma isDuplicateURL_found:
  assumes "documents st = Some (h # rows)" "\<exists>r \<in> set rows. at r 2 = CStr url"
  shows "isDuplicateURL st url"
proof -
  from assms(2) have "rows \<noteq> []" by auto
  with assms show ?thesis
    by (auto simp: isDuplicateURL_def getLastRow_def list_ex_iff)
qed

text \<open>
  C3. When a data row of the documents sheet, whatever its status, already has the URL
  of the document to add, \<open>addDocument\<close> returns a failure and leaves the whole store as
  it was, so the number of rows with that URL is unchanged; for a signed-in user and a
  document with name, URL and category the failure is the duplicate-URL error.
\<close>

theorem C3_duplicate_url:
  assumes docs: "documents st = Some (h # rows)"
      and dup: "\<exists>r \<in> set rows. at r 2 = CStr (GoogleDriveURL d)"
  shows "(\<exists>m. fst (addDocument e d st) = JSON (Failure m))
    \<and> snd (addDocument e d st) = st
    \<and> (isSignedIn (currentUser e) \<and> DocumentName d \<noteq> [] \<and> GoogleDriveURL d \<noteq> [] \<and> Category d \<noteq> []
         \<longrightarrow> fst (addDocument e d st) = JSON (Failure ''A document with this URL already exists''))
    \<and> length (filter (\<lambda>r. at r 2 = CStr (GoogleDriveURL d))
                (dataRows (documents (snd (addDocument e d st)))))
        = length (filter (\<lambda>r. at r 2 = CStr (GoogleDriveURL d)) rows)"
proof -
  note found = isDuplicateURL_found [OF docs dup]
  have unchanged: "snd (addDocument e d st) = st"
    using found by (simp add: addDocument_def)
  have fails: "\<exists>m. fst (addDocument e d st) = JSON (Failure m)"
    using found by (simp add: addDocument_def)
  have msg: "fst (addDocument e d st) = JSON (Failure ''A document with this URL already exists'')"
    if "isSignedIn (currentUser e) \<and> DocumentName d \<noteq> [] \<and> GoogleDriveURL d \<noteq> [] \<and> Category d \<noteq> []"
    using that found by (simp add: addDocument_def)
  have "dataRows (documents (snd (addDocument e d st))) = rows"
    using unchanged docs by (simp add: dataRows_def)
  with unchanged fails msg show ?thesis
    by simp
qed

theorem C3_duplicate_url_witness:
  "documents archivedLibrary = Some (documentsHeader # [budget[10 := CStr ''Archived'']])
   \<and> (\<exists>r \<in> set [budget[10 := CStr ''Archived'']]. at r 2 = CStr (GoogleDriveURL budgetCopy))
   \<and> isSignedIn (currentUser (annAt 100)) \<and> DocumentName budgetCopy \<noteq> []
   \<and> GoogleDriveURL budgetCopy \<noteq> [] \<and> Category budgetCopy \<noteq> []
   \<and> fst (addDocument (annAt 100) budgetCopy archivedLibrary)
       = JSON (Failure ''A document with this URL already exists'')
   \<and> snd (addDocument (annAt 100) budgetCopy archivedLibrary) = archivedLibrary
   \<and> length (filter (\<lambda>r. at r 2 = CStr (GoogleDriveURL budgetCopy))
        (dataRows (documents (snd (addDocument (annAt 100) budgetCopy archivedLibrary))))) = 1"
proof -
  have a: "documents archivedLibrary = Some (documentsHeader # [budget[10 := CStr ''Archived'']])"
    by (simp add: archivedLibrary_def)
  have b: "\<exists>r \<in> set [budget[10 := CStr ''Archived'']]. at r 2 = CStr (GoogleDriveURL budgetCopy)"
    by (simp add: budget_def budgetCopy_def at_def)
  have c: "isSignedIn (currentUser (annAt 100)) \<and> DocumentName budgetCopy \<noteq> []
           \<and> GoogleDriveURL budgetCopy \<noteq> [] \<and> Category budgetCopy \<noteq> []"
    by (simp add: annAt_def ann_def budgetCopy_def)
  have one: "length (filter (\<lambda>r. at r 2 = CStr (GoogleDriveURL budgetCopy)) [budget[10 := CStr ''Archived'']]) = 1"
    by (simp add: budget_def budgetCopy_def at_def)
  note dupl = C3_duplicate_url [OF a b, of "annAt 100"]
  have n: "length (filter (\<lambda>r. at r 2 = CStr (GoogleDriveURL budgetCopy))
        (dataRows (documents (snd (addDocument (annAt 100) budgetCopy archivedLibrary))))) = 1"
    unfolding dupl [THEN conjunct2, THEN conjunct2, THEN conjunct2] by (rule one)
  show ?thesis
    using a b c n dupl by blast
qed
subsection \<open>Archiving and restoring\<close>

lemma indexOf_Some: "indexOf h v = Some k \<Longrightarrow> k < length h \<and> strictEq (h ! k) v"
  using findIndex_Some_bounds [of "\<lambda>x. strictEq x v" h k] by (simp add: indexOf_def)

lemma at_setValue_row:
  assumes "1 \<le> n" "n \<le> length sh" "1 \<le> c"
  shows "at (setValue sh n c v ! (n - 1)) (c - 1) = v"
    and "k \<noteq> c - 1 \<Longrightarrow> k < length (sh ! (n - 1)) \<Longrightarrow>
         at (setValue sh n c v ! (n - 1)) k = at (sh ! (n - 1)) k"
    and "length (setValue sh n c v) = length sh"
    and "length (sh ! (n - 1)) \<le> length (setValue sh n c v ! (n - 1))"
  using assms by (auto simp: setValue_in_range at_def nth_append)

lemma updateDocument_status:
  assumes signed: "isSignedIn (currentUser e)"
      and docs: "documents st = Some (h # rows)"
      and log: "activityLog st = Some lg"
      and hdr: "at h 0 \<noteq> CStr docId"
      and found: "findIndex (\<lambda>r. at r 0 = CStr docId) rows = Some i"
      and sc: "indexOf h (CStr ''Status'') = Some c"
      and lm: "indexOf h (CStr ''LastModified'') = Some m"
  shows "fst (fst (updateDocumentCounted e docId [(''Status'', CStr v)] st))
           = JSON (Success ''Document updated successfully'')"
    and "activityLog (snd (fst (updateDocumentCounted e docId [(''Status'', CStr v)] st)))
           = Some (if at (rows ! i) c \<noteq> CStr v
                   then lg @ [activityEntry e 0 ''Updated Document'' docId ''Status updated'']
                   else lg)"
    and "snd (updateDocumentCounted e docId [(''Status'', CStr v)] st)
           = (if at (rows ! i) c \<noteq> CStr v then 1 else 0)"
    and "documents (snd (fst (updateDocumentCounted e docId [(''Status'', CStr v)] st)))
           = Some (setValue
                (if at (rows ! i) c \<noteq> CStr v then setValue (h # rows) (i + 2) (c + 1) (CStr v)
                 else h # rows)
                (i + 2) (m + 1) (CDate (now e)))"
proof -
  from hdr found have idx: "findIndex (\<lambda>r. strictEq (at r 0) (CStr docId)) (h # rows) = Some (Suc i)"
    by simp
  have cat: "getProp [(''Status'', CStr v)] ''Category'' = CUndef"
    and tg: "getProp [(''Status'', CStr v)] ''Tags'' = CUndef"
    and stv: "getProp [(''Status'', CStr v)] ''Status'' = CStr v"
    by (simp_all add: getProp_def)
  from signed docs idx lm
  show "fst (fst (updateDocumentCounted e docId [(''Status'', CStr v)] st))
           = JSON (Success ''Document updated successfully'')"
    by (simp add: updateDocumentCounted_def getValues_def Let_def del: findIndex.simps)
  from signed docs idx lm sc log cat tg stv
  show "activityLog (snd (fst (updateDocumentCounted e docId [(''Status'', CStr v)] st)))
           = Some (if at (rows ! i) c \<noteq> CStr v
                   then lg @ [activityEntry e 0 ''Updated Document'' docId ''Status updated'']
                   else lg)"
    by (simp add: updateDocumentCounted_def getValues_def Let_def writeField_def logActivity_log
          del: findIndex.simps)
  from signed docs idx lm sc log cat tg stv
  show "snd (updateDocumentCounted e docId [(''Status'', CStr v)] st)
           = (if at (rows ! i) c \<noteq> CStr v then 1 else 0)"
    by (simp add: updateDocumentCounted_def getValues_def Let_def writeField_def logDraws_def
          del: findIndex.simps)
  from signed docs idx lm sc log cat tg stv
  show "documents (snd (fst (updateDocumentCounted e docId [(''Status'', CStr v)] st)))
           = Some (setValue
                (if at (rows ! i) c \<noteq> CStr v then setValue (h # rows) (i + 2) (c + 1) (CStr v)
                 else h # rows)
                (i + 2) (m + 1) (CDate (now e)))"
    by (simp add: updateDocumentCounted_def getValues_def Let_def writeField_def
          del: findIndex.simps)
qed

lemma status_after:
  assumes found: "findIndex (\<lambda>r. at r 0 = CStr docId) rows = Some i"
      and sc: "indexOf h (CStr ''Status'') = Some c"
      and lm: "indexOf h (CStr ''LastModified'') = Some m"
  shows "at (drop 1 (setValue
                (if at (rows ! i) c \<noteq> CStr v then setValue (h # rows) (i + 2) (c + 1) (CStr v)
                 else h # rows)
                (i + 2) (m + 1) (CDate (now e))) ! i) c = CStr v"
proof -
  from findIndex_Some_bounds [OF found] have i: "i < length rows" by simp
  from indexOf_Some [OF sc] indexOf_Some [OF lm] have cm: "c \<noteq> m"
    by auto
  let ?sh1 = "if at (rows ! i) c \<noteq> CStr v then setValue (h # rows) (i + 2) (c + 1) (CStr v)
              else h # rows"
  have len1: "length ?sh1 = length (h # rows)"
    using i at_setValue_row(3) [of "i + 2" "h # rows" "c + 1" "CStr v"] by simp
  have cell1: "at (?sh1 ! (i + 1)) c = CStr v"
    using i at_setValue_row(1) [of "i + 2" "h # rows" "c + 1" "CStr v"] by auto
  then have inrow: "c < length (?sh1 ! (i + 1))"
    by (auto simp: at_def split: if_splits)
  have n: "1 \<le> i + 2" "i + 2 \<le> length ?sh1" "1 \<le> m + 1"
    using i len1 by simp_all
  from at_setValue_row(2) [OF n, of c "CDate (now e)"] cm inrow cell1
  have "at (setValue ?sh1 (i + 2) (m + 1) (CDate (now e)) ! (i + 1)) c = CStr v"
    by simp
  moreover have "i + 1 < length (setValue ?sh1 (i + 2) (m + 1) (CDate (now e)))"
    using at_setValue_row(3) [OF n, of "CDate (now e)"] len1 i by simp
  ultimately show ?thesis
    by (simp add: nth_drop del: setValue_def)
qed

text \<open>
  C10. For a signed-in user, an activity log, a documents sheet whose header names the
  columns \<open>Status\<close> and \<open>LastModified\<close>, and a document id found in data row \<open>i\<close>:
  \<open>archiveDocument\<close> and \<open>restoreDocument\<close> succeed and leave \<open>Archived\<close>, respectively
  \<open>Active\<close>, in the status cell of that row. When the status was not yet \<open>Archived\<close> (so
  also when it was \<open>Active\<close>), \<open>archiveDocument\<close> appends exactly two rows to the log:
  first the row of the update, with the first identifier drawn and the action
  \<open>Updated Document\<close>, then its own row, with the second identifier drawn and the action
  \<open>Archived Document\<close>. When the document was archived already, it appends exactly one
  row, with the first identifier drawn and the action \<open>Archived Document\<close>.
  \<open>restoreDocument\<close> does the same with \<open>Active\<close> and \<open>Restored Document\<close>.
\<close>

theorem C10_archive_restore_log:
  assumes signed: "isSignedIn (currentUser e)"
      and docs: "documents st = Some (h # rows)"
      and log: "activityLog st = Some lg"
      and hdr: "at h 0 \<noteq> CStr docId"
      and found: "findIndex (\<lambda>r. at r 0 = CStr docId) rows = Some i"
      and sc: "indexOf h (CStr ''Status'') = Some c"
      and lm: "indexOf h (CStr ''LastModified'') = Some m"
  shows "fst (archiveDocument e docId st) = JSON (Success ''Document updated successfully'')
    \<and> fst (restoreDocument e docId st) = JSON (Success ''Document updated successfully'')
    \<and> at (dataRows (documents (snd (archiveDocument e docId st))) ! i) c = CStr ''Archived''
    \<and> at (dataRows (documents (snd (restoreDocument e docId st))) ! i) c = CStr ''Active''
    \<and> (at (rows ! i) c \<noteq> CStr ''Archived'' \<longrightarrow>
          activityLog (snd (archiveDocument e docId st))
            = Some (lg @
                [[CStr (''ACT_'' @ randomId e 0), CStr (email (currentUser e)),
                  CStr (name (currentUser e)), CStr ''Updated Document'', CStr docId,
                  CStr ''Status updated'', CDate (now e)],
                 [CStr (''ACT_'' @ randomId e 1), CStr (email (currentUser e)),
                  CStr (name (currentUser e)), CStr ''Archived Document'', CStr docId,
                  CStr ''Document archived'', CDate (now e)]]))
    \<and> (at (rows ! i) c = CStr ''Archived'' \<longrightarrow>
          activityLog (snd (archiveDocument e docId st))
            = Some (lg @
                [[CStr (''ACT_'' @ randomId e 0), CStr (email (currentUser e)),
                  CStr (name (currentUser e)), CStr ''Archived Document'', CStr docId,
                  CStr ''Document archived'', CDate (now e)]]))
    \<and> (at (rows ! i) c \<noteq> CStr ''Active'' \<longrightarrow>
          activityLog (snd (restoreDocument e docId st))
            = Some (lg @
                [[CStr (''ACT_'' @ randomId e 0), CStr (email (currentUser e)),
                  CStr (name (currentUser e)), CStr ''Updated Document'', CStr docId,
                  CStr ''Status updated'', CDate (now e)],
                 [CStr (''ACT_'' @ randomId e 1), CStr (email (currentUser e)),
                  CStr (name (currentUser e)), CStr ''Restored Document'', CStr docId,
                  CStr ''Document restored'', CDate (now e)]]))
    \<and> (at (rows ! i) c = CStr ''Active'' \<longrightarrow>
          activityLog (snd (restoreDocument e docId st))
            = Some (lg @
                [[CStr (''ACT_'' @ randomId e 0), CStr (email (currentUser e)),
                  CStr (name (currentUser e)), CStr ''Restored Document'', CStr docId,
                  CStr ''Document restored'', CDate (now e)]]))"
proof -
  note upd = updateDocument_status [OF signed docs log hdr found sc lm]
  have arch: "archiveDocument e docId st
      = (JSON (Success ''Document updated successfully''),
         logActivity e (if at (rows ! i) c \<noteq> CStr ''Archived'' then 1 else 0)
           ''Archived Document'' docId ''Document archived''
           (snd (fst (updateDocumentCounted e docId [(''Status'', CStr ''Archived'')] st))))"
    using upd(1,3) [of "''Archived''"]
    by (simp add: archiveDocument_def split_beta)
  have rest: "restoreDocument e docId st
      = (JSON (Success ''Document updated successfully''),
         logActivity e (if at (rows ! i) c \<noteq> CStr ''Active'' then 1 else 0)
           ''Restored Document'' docId ''Document restored''
           (snd (fst (updateDocumentCounted e docId [(''Status'', CStr ''Active'')] st))))"
    using upd(1,3) [of "''Active''"]
    by (simp add: restoreDocument_def split_beta)
  have cellA: "at (dataRows (documents (snd (archiveDocument e docId st))) ! i) c = CStr ''Archived''"
    unfolding arch using status_after [OF found sc lm, of "''Archived''" e]
    by (simp add: upd(4) dataRows_def)
  have cellR: "at (dataRows (documents (snd (restoreDocument e docId st))) ! i) c = CStr ''Active''"
    unfolding rest using status_after [OF found sc lm, of "''Active''" e]
    by (simp add: upd(4) dataRows_def)
  have logs:
    "(at (rows ! i) c \<noteq> CStr ''Archived'' \<longrightarrow>
          activityLog (snd (archiveDocument e docId st))
            = Some (lg @
                [[CStr (''ACT_'' @ randomId e 0), CStr (email (currentUser e)),
                  CStr (name (currentUser e)), CStr ''Updated Document'', CStr docId,
                  CStr ''Status updated'', CDate (now e)],
                 [CStr (''ACT_'' @ randomId e 1), CStr (email (currentUser e)),
                  CStr (name (currentUser e)), CStr ''Archived Document'', CStr docId,
                  CStr ''Document archived'', CDate (now e)]]))
    \<and> (at (rows ! i) c = CStr ''Archived'' \<longrightarrow>
          activityLog (snd (archiveDocument e docId st))
            = Some (lg @
                [[CStr (''ACT_'' @ randomId e 0), CStr (email (currentUser e)),
                  CStr (name (currentUser e)), CStr ''Archived Document'', CStr docId,
                  CStr ''Document archived'', CDate (now e)]]))
    \<and> (at (rows ! i) c \<noteq> CStr ''Active'' \<longrightarrow>
          activityLog (snd (restoreDocument e docId st))
            = Some (lg @
                [[CStr (''ACT_'' @ randomId e 0), CStr (email (currentUser e)),
                  CStr (name (currentUser e)), CStr ''Updated Document'', CStr docId,
                  CStr ''Status updated'', CDate (now e)],
                 [CStr (''ACT_'' @ randomId e 1), CStr (email (currentUser e)),
                  CStr (name (currentUser e)), CStr ''Restored Document'', CStr docId,
                  CStr ''Document restored'', CDate (now e)]]))
    \<and> (at (rows ! i) c = CStr ''Active'' \<longrightarrow>
          activityLog (snd (restoreDocument e docId st))
            = Some (lg @
                [[CStr (''ACT_'' @ randomId e 0), CStr (email (currentUser e)),
                  CStr (name (currentUser e)), CStr ''Restored Document'', CStr docId,
                  CStr ''Document restored'', CDate (now e)]]))"
    unfolding arch rest
    by (simp add: logActivity_log upd(2) activityEntry_def generateId_def)
  from arch rest cellA cellR logs show ?thesis
    by simp
qed

theorem C10_archive_restore_log_witness:
  "isSignedIn (currentUser (annAt 100))
   \<and> documents (library [] []) = Some (documentsHeader # [budget])
   \<and> activityLog (library [] []) = Some [activityHeader]
   \<and> at documentsHeader 0 \<noteq> CStr ''DOC_1''
   \<and> findIndex (\<lambda>r. at r 0 = CStr ''DOC_1'') [budget] = Some 0
   \<and> indexOf documentsHeader (CStr ''Status'') = Some 10
   \<and> indexOf documentsHeader (CStr ''LastModified'') = Some 9
   \<and> at ([budget] ! 0) 10 \<noteq> CStr ''Archived''
   \<and> at ([budget] ! 0) 10 = CStr ''Active''
   \<and> fst (archiveDocument (annAt 100) ''DOC_1'' (library [] []))
       = JSON (Success ''Document updated successfully'')
   \<and> at (dataRows (documents (snd (archiveDocument (annAt 100) ''DOC_1'' (library [] [])))) ! 0) 10
       = CStr ''Archived''
   \<and> activityLog (snd (archiveDocument (annAt 100) ''DOC_1'' (library [] [])))
       = Some [activityHeader,
           [CStr ''ACT_Z'', CStr ''ann@x.org'', CStr ''Ann'', CStr ''Updated Document'',
            CStr ''DOC_1'', CStr ''Status updated'', CDate 100],
           [CStr ''ACT_ZZ'', CStr ''ann@x.org'', CStr ''Ann'', CStr ''Archived Document'',
            CStr ''DOC_1'', CStr ''Document archived'', CDate 100]]
   \<and> activityLog (snd (restoreDocument (annAt 100) ''DOC_1'' (library [] [])))
       = Some [activityHeader,
           [CStr ''ACT_Z'', CStr ''ann@x.org'', CStr ''Ann'', CStr ''Restored Document'',
            CStr ''DOC_1'', CStr ''Document restored'', CDate 100]]"
proof -
  have a: "isSignedIn (currentUser (annAt 100))"
    by (simp add: annAt_def ann_def)
  have b: "documents (library [] []) = Some (documentsHeader # [budget])"
    and c: "activityLog (library [] []) = Some [activityHeader]"
    by (simp_all add: library_def)
  have d: "at documentsHeader 0 \<noteq> CStr ''DOC_1''"
    by (simp add: documentsHeader_def at_def)
  have f: "findIndex (\<lambda>r. at r 0 = CStr ''DOC_1'') [budget] = Some 0"
    by (simp add: budget_def at_def)
  have g: "indexOf documentsHeader (CStr ''Status'') = Some 10"
    and h: "indexOf documentsHeader (CStr ''LastModified'') = Some 9"
    by (simp_all add: documentsHeader_def indexOf_def)
  have s: "at ([budget] ! 0) 10 \<noteq> CStr ''Archived''" "at ([budget] ! 0) 10 = CStr ''Active''"
    by (simp_all add: budget_def at_def)
  have ids: "randomId (annAt 100) 0 = ''Z''" "randomId (annAt 100) (Suc 0) = ''ZZ''"
    "email (currentUser (annAt 100)) = ''ann@x.org''" "name (currentUser (annAt 100)) = ''Ann''"
    "now (annAt 100) = 100"
    by (simp_all add: annAt_def ann_def)
  note logs = C10_archive_restore_log [OF a b c d f g h]
  from logs s(1) have la: "activityLog (snd (archiveDocument (annAt 100) ''DOC_1'' (library [] [])))
       = Some [activityHeader,
           [CStr ''ACT_Z'', CStr ''ann@x.org'', CStr ''Ann'', CStr ''Updated Document'',
            CStr ''DOC_1'', CStr ''Status updated'', CDate 100],
           [CStr ''ACT_ZZ'', CStr ''ann@x.org'', CStr ''Ann'', CStr ''Archived Document'',
            CStr ''DOC_1'', CStr ''Document archived'', CDate 100]]"
    by (simp add: ids)
  from logs s(2) have lr: "activityLog (snd (restoreDocument (annAt 100) ''DOC_1'' (library [] [])))
       = Some [activityHeader,
           [CStr ''ACT_Z'', CStr ''ann@x.org'', CStr ''Ann'', CStr ''Restored Document'',
            CStr ''DOC_1'', CStr ''Document restored'', CDate 100]]"
    by (simp add: ids)
  show ?thesis
    using a b c d f g h s la lr logs by blast
qed

subsection \<open>Adding, then listing\<close>

lemma map_of_setProp: "map_of (setProp k v obj) = (map_of obj)(k \<mapsto> v)"
  by (induction obj) auto

lemma rowObject_upto:
  assumes "distinct (map (toText e) hs)" "n \<le> length hs" "i < n"
  shows "map_of (foldl (\<lambda>doc i. setProp (toText e (hs ! i)) (at r i) doc) [] [0..<n])
           (toText e (hs ! i)) = Some (at r i)"
  using assms(2,3)
proof (induction n)
  case 0
  then show ?case by simp
next
  case (Suc n)
  show ?case
  proof (cases "i = n")
    case True
    then show ?thesis by (simp add: map_of_setProp)
  next
    case False
    with Suc.prems have i: "i < n" and n: "n < length hs" by simp_all
    have "map (toText e) hs ! i \<noteq> map (toText e) hs ! n"
      using assms(1) i n False by (simp add: nth_eq_iff_index_eq del: nth_map)
    with i n have "toText e (hs ! i) \<noteq> toText e (hs ! n)"
      by simp
    with Suc.IH i n show ?thesis
      by (simp add: map_of_setProp)
  qed
qed

lemma rowObject_lookup:
  "distinct (map (toText e) hs) \<Longrightarrow> i < length hs \<Longrightarrow>
   getProp (rowObject e hs r) (toText e (hs ! i)) = at r i"
  using rowObject_upto [of e hs "length hs" i r]
  by (simp add: rowObject_def getProp_def)

lemma documentColumns_props:
  assumes "documentColumns e h"
  shows "getProp (rowObject e h r) ''DocumentName'' = at r 1"
    and "getProp (rowObject e h r) ''FileType'' = at r 5"
    and "getProp (rowObject e h r) ''DateAdded'' = at r 8"
    and "getProp (rowObject e h r) ''LastModified'' = at r 9"
    and "getProp (rowObject e h r) ''Status'' = at r 10"
proof -
  from assms have d: "distinct (map (toText e) h)" and l: "length h = 11"
    and c: "h ! 1 = CStr ''DocumentName''" "h ! 5 = CStr ''FileType''"
      "h ! 8 = CStr ''DateAdded''" "h ! 9 = CStr ''LastModified''" "h ! 10 = CStr ''Status''"
    by (simp_all add: documentColumns_def)
  from rowObject_lookup [OF d, of 1 r] l c(1)
  show "getProp (rowObject e h r) ''DocumentName'' = at r 1" by (simp add: toText_def)
  from rowObject_lookup [OF d, of 5 r] l c(2)
  show "getProp (rowObject e h r) ''FileType'' = at r 5" by (simp add: toText_def)
  from rowObject_lookup [OF d, of 8 r] l c(3)
  show "getProp (rowObject e h r) ''DateAdded'' = at r 8" by (simp add: toText_def)
  from rowObject_lookup [OF d, of 9 r] l c(4)
  show "getProp (rowObject e h r) ''LastModified'' = at r 9" by (simp add: toText_def)
  from rowObject_lookup [OF d, of 10 r] l c(5)
  show "getProp (rowObject e h r) ''Status'' = at r 10" by (simp add: toText_def)
qed

lemma getDocuments_unfiltered:
  assumes "documents st = Some (h # r # rs)"
  shows "\<exists>ds. getDocuments e noFilters st = Success ds
            \<and> set ds = rowObject e h ` set (r # rs)
            \<and> (\<forall>P. length (filter P ds) = length (filter (\<lambda>x. P (rowObject e h x)) (r # rs)))"
proof -
  let ?cmp = "\<lambda>a b. dateDiff e (getProp b ''LastModified'') (getProp a ''LastModified'')"
  let ?docs = "map (rowObject e h) (r # rs)"
  have sortf: "getSortFunction e ''date_desc'' = ?cmp"
    by (simp add: getSortFunction_def)
  have "sortWith ?cmp ?docs \<noteq> None"
    by (rule sortWith_total) (rule dateDiff_total)
  then obtain ds where ds: "sortWith ?cmp ?docs = Some ds" by auto
  have pass: "filter (\<lambda>doc. passesFilters doc noFilters) ?docs = ?docs"
    by (simp add: passesFilters_def noFilters_def)
  from assms ds sortf pass have "getDocuments e noFilters st = Success ds"
    by (simp add: getDocuments_def getLastRow_def getValues_def Let_def noFilters_def)
  moreover from sortWith_set [OF ds] have "set ds = rowObject e h ` set (r # rs)"
    by simp
  moreover have "length (filter P ds) = length (filter (\<lambda>x. P (rowObject e h x)) (r # rs))" for P
  proof -
    have "length (filter P ?docs) = length (filter (\<lambda>x. P (rowObject e h x)) (r # rs))"
      by (simp only: filter_map length_map comp_def)
    with sortWith_count [OF ds, of P] show ?thesis
      by (simp only:)
  qed
  ultimately show ?thesis by blast
qed

lemma isDuplicateURL_none:
  "documents st = Some (h # rows) \<Longrightarrow> \<not> (\<exists>r \<in> set rows. at r 2 = CStr url) \<Longrightarrow>
   \<not> isDuplicateURL st url"
  by (auto simp: isDuplicateURL_def list_ex_iff)

lemma q1_fileType: "detectFileType ''https://docs.google.com/document/d/abc'' = ''Google Doc''"
  by code_simp

text \<open>
  C8. For a signed-in user and a documents sheet with its header, holding no row named
  \<open>Q1 Report\<close> and no row with the URL: adding the report succeeds and appends exactly
  one row; the unfiltered list read afterwards has exactly one document named
  \<open>Q1 Report\<close>, and that document has file type \<open>Google Doc\<close>, status \<open>Active\<close>, and
  both \<open>DateAdded\<close> and \<open>LastModified\<close> equal to the time of the add.
\<close>

theorem C8_add_then_list:
  assumes signed: "isSignedIn (currentUser e)"
      and docs: "documents st = Some (h # rows)"
      and cols: "documentColumns e' h"
      and noname: "\<not> (\<exists>r \<in> set rows. at r 1 = CStr ''Q1 Report'')"
      and nourl: "\<not> (\<exists>r \<in> set rows. at r 2 = CStr (GoogleDriveURL q1Report))"
  shows "fst (addDocument e q1Report st)
           = JSON (Success (generateId e 0 ''DOC'', ''Document added successfully''))
    \<and> documents (snd (addDocument e q1Report st)) = Some (h # rows @ [q1Row e])
    \<and> (\<exists>ds. getDocuments e' noFilters (snd (addDocument e q1Report st)) = Success ds
          \<and> length (filter (\<lambda>d. getProp d ''DocumentName'' = CStr ''Q1 Report'') ds) = 1
          \<and> list_all (\<lambda>d. getProp d ''DocumentName'' = CStr ''Q1 Report'' \<longrightarrow>
                 getProp d ''FileType'' = CStr ''Google Doc''
               \<and> getProp d ''Status'' = CStr ''Active''
               \<and> getProp d ''DateAdded'' = CDate (now e)
               \<and> getProp d ''LastModified'' = CDate (now e)) ds)"
proof -
  let ?st' = "snd (addDocument e q1Report st)"
  let ?named = "\<lambda>d. getProp d ''DocumentName'' = CStr ''Q1 Report''"
  note nodup = isDuplicateURL_none [OF docs nourl]
  from signed docs nodup
  have res: "fst (addDocument e q1Report st)
           = JSON (Success (generateId e 0 ''DOC'', ''Document added successfully''))"
    by (simp add: addDocument_def Let_def q1Report_def)
  from signed docs nodup
  have sheet: "documents ?st' = Some (h # rows @ [q1Row e])"
    by (simp add: addDocument_def Let_def q1Report_def q1Row_def appendRow_def q1_fileType)
  obtain r rs where rrs: "rows @ [q1Row e] = r # rs"
    by (cases "rows @ [q1Row e]") simp_all
  with sheet have "documents ?st' = Some (h # r # rs)" by simp
  from getDocuments_unfiltered [OF this, of e'] rrs
  obtain ds where ds: "getDocuments e' noFilters ?st' = Success ds"
    and dset: "set ds = rowObject e' h ` set (rows @ [q1Row e])"
    and dcount: "\<And>P. length (filter P ds)
                   = length (filter (\<lambda>x. P (rowObject e' h x)) (rows @ [q1Row e]))"
    by auto
  note props = documentColumns_props [OF cols]
  have new: "at (q1Row e) 1 = CStr ''Q1 Report''" "at (q1Row e) 5 = CStr ''Google Doc''"
    "at (q1Row e) 8 = CDate (now e)" "at (q1Row e) 9 = CDate (now e)"
    "at (q1Row e) 10 = CStr ''Active''"
    by (simp_all add: q1Row_def at_def)
  from noname have old: "filter (\<lambda>x. at x 1 = CStr ''Q1 Report'') rows = []"
    by (simp add: filter_empty_conv)
  have one: "length (filter ?named ds) = 1"
    using dcount [of ?named] old new(1) by (simp add: props)
  have "\<forall>d \<in> set ds. ?named d \<longrightarrow>
          getProp d ''FileType'' = CStr ''Google Doc'' \<and> getProp d ''Status'' = CStr ''Active''
        \<and> getProp d ''DateAdded'' = CDate (now e) \<and> getProp d ''LastModified'' = CDate (now e)"
  proof (intro ballI impI)
    fix d assume "d \<in> set ds" and nm: "?named d"
    with dset obtain x where x: "x \<in> set (rows @ [q1Row e])" and d: "d = rowObject e' h x"
      by auto
    from nm d have "at x 1 = CStr ''Q1 Report''" by (simp add: props)
    with x noname have "x = q1Row e" by auto
    with d new show "getProp d ''FileType'' = CStr ''Google Doc'' \<and> getProp d ''Status'' = CStr ''Active''
        \<and> getProp d ''DateAdded'' = CDate (now e) \<and> getProp d ''LastModified'' = CDate (now e)"
      by (simp add: props)
  qed
  then have "list_all (\<lambda>d. ?named d \<longrightarrow>
          getProp d ''FileType'' = CStr ''Google Doc'' \<and> getProp d ''Status'' = CStr ''Active''
        \<and> getProp d ''DateAdded'' = CDate (now e) \<and> getProp d ''LastModified'' = CDate (now e)) ds"
    by (simp add: list_all_iff)
  with res sheet ds one show ?thesis
    by blast
qed


theorem C8_add_then_list_witness:
  "isSignedIn (currentUser (annAt 100))
   \<and> documents (library [] []) = Some (documentsHeader # [budget])
   \<and> documentColumns (annAt 200) documentsHeader
   \<and> \<not> (\<exists>r \<in> set [budget]. at r 1 = CStr ''Q1 Report'')
   \<and> \<not> (\<exists>r \<in> set [budget]. at r 2 = CStr (GoogleDriveURL q1Report))
   \<and> fst (addDocument (annAt 100) q1Report (library [] []))
       = JSON (Success (generateId (annAt 100) 0 ''DOC'', ''Document added successfully''))
   \<and> documents (snd (addDocument (annAt 100) q1Report (library [] [])))
       = Some (documentsHeader # [budget] @ [q1Row (annAt 100)])
   \<and> (\<exists>ds. getDocuments (annAt 200) noFilters (snd (addDocument (annAt 100) q1Report (library [] [])))
               = Success ds
          \<and> length (filter (\<lambda>d. getProp d ''DocumentName'' = CStr ''Q1 Report'') ds) = 1
          \<and> list_all (\<lambda>d. getProp d ''DocumentName'' = CStr ''Q1 Report'' \<longrightarrow>
                 getProp d ''FileType'' = CStr ''Google Doc''
               \<and> getProp d ''Status'' = CStr ''Active''
               \<and> getProp d ''DateAdded'' = CDate (now (annAt 100))
               \<and> getProp d ''LastModified'' = CDate (now (annAt 100))) ds)"
proof -
  have a: "isSignedIn (currentUser (annAt 100))"
    by (simp add: annAt_def ann_def)
  have b: "documents (library [] []) = Some (documentsHeader # [budget])"
    by (simp add: library_def)
  have c: "documentColumns (annAt 200) documentsHeader"
    by (simp add: documentColumns_def documentsHeader_def toText_def)
  have d: "\<not> (\<exists>r \<in> set [budget]. at r 1 = CStr ''Q1 Report'')"
    and f: "\<not> (\<exists>r \<in> set [budget]. at r 2 = CStr (GoogleDriveURL q1Report))"
    by (simp_all add: budget_def q1Report_def at_def)
  note listed = C8_add_then_list [OF a b c d f]
  show ?thesis
    using a b c d f listed by blast
qed
subsection \<open>The counters, and the first load of the page\<close>

text \<open>
  C1. The tag counters do not always equal the number of documents that list the tag.
  In the store with one document tagged \<open>urgent\<close> and the counter of \<open>urgent\<close> at 1,
  archiving the document succeeds and leaves its tags string as it was, but the counter
  goes to 0: \<open>updateDocument\<close> compares the absent \<open>Tags\<close> of the update with the
  old tags string, finds them different, and decrements every old tag.
\<close>

theorem C1_archive_decrements_tags:
  "tagCountsExact (library [] [])
   \<and> fst (archiveDocument (annAt 100) ''DOC_1'' (library [] []))
       = JSON (Success ''Document updated successfully'')
   \<and> dataRows (documents (snd (archiveDocument (annAt 100) ''DOC_1'' (library [] []))))
       = [budget[9 := CDate 100, 10 := CStr ''Archived'']]
   \<and> dataRows (tags (snd (archiveDocument (annAt 100) ''DOC_1'' (library [] []))))
       = [urgent[4 := CNum 0]]
   \<and> documentsWithTag (snd (archiveDocument (annAt 100) ''DOC_1'' (library [] []))) ''urgent'' = 1
   \<and> \<not> tagCountsExact (snd (archiveDocument (annAt 100) ''DOC_1'' (library [] [])))"
  by (intro conjI; code_simp)


text \<open>
  C2. The category counters do not always equal the number of documents of the
  category. In the store with one document in \<open>Finance\<close> and the counter of
  \<open>Finance\<close> at 1, an update that sets \<open>Category\<close> to the empty string succeeds and
  writes the empty category into the row, but the counter stays at 1 while no document
  is in \<open>Finance\<close>: the write tests the new value against \<^verbatim>\<open>undefined\<close>, the
  counter update tests its truth value.
\<close>

theorem C2_empty_category_keeps_count:
  "categoryCountsExact (library [] [])
   \<and> fst (updateDocument (annAt 100) ''DOC_1'' [(''Category'', CStr [])] (library [] []))
       = JSON (Success ''Document updated successfully'')
   \<and> dataRows (documents (snd (updateDocument (annAt 100) ''DOC_1'' [(''Category'', CStr [])]
         (library [] []))))
       = [budget[4 := CStr [], 9 := CDate 100]]
   \<and> dataRows (categories (snd (updateDocument (annAt 100) ''DOC_1'' [(''Category'', CStr [])]
         (library [] []))))
       = [finance]
   \<and> documentsInCategory (snd (updateDocument (annAt 100) ''DOC_1'' [(''Category'', CStr [])]
         (library [] []))) (CStr ''Finance'') = 0
   \<and> \<not> categoryCountsExact (snd (updateDocument (annAt 100) ''DOC_1'' [(''Category'', CStr [])]
         (library [] [])))"
  by (intro conjI; code_simp)


text \<open>
  For every signed-in user and every store the first load reports no online user:
  \<open>getOnlineUsers\<close> returns a JSON text, and the field \<open>users\<close> of a text is absent.
\<close>

lemma getInitialData_onlineUsers_empty:
  "isSignedIn (currentUser e) \<Longrightarrow>
   \<exists>d. fst (getInitialData e st) = JSON (Success d) \<and> r_onlineUsers d = []"
  by (simp add: getInitialData_def Let_def split_beta fieldOfText_def orDefault_def)


text \<open>
  C4. The first load does not return the list that the online-users read returns. With
  one session that is online and not expired, \<open>getOnlineUsers\<close> lists that session,
  while \<open>getInitialData\<close>, in the same store and at the same time, returns the
  favorites, categories and tags but an empty list of online users.
\<close>

theorem C4_onlineUsers_dropped:
  "isSignedIn (currentUser (annAt 100))
   \<and> \<not> expired (annAt 100) (bobSession 50)
   \<and> fst (getOnlineUsers (annAt 100) (library [annFav] [bobSession 50]))
       = JSON (Success [onlineUserOfRow (bobSession 50)])
   \<and> (case JSON_parse (fst (getInitialData (annAt 100) (library [annFav] [bobSession 50]))) of
         Success d \<Rightarrow> r_onlineUsers d = [] \<and> r_favorites d = [CStr ''DOC_1'']
           \<and> r_categories d = [categoryOfRow finance] \<and> r_tags d = [tagOfRow urgent]
       | Failure m \<Rightarrow> False)"
  by (intro conjI; code_simp)
subsection \<open>File-type inference\<close>

lemma detectFileType_classify: "detectFileType url = classifyByPriority url"
  unfolding detectFileType_def classifyByPriority_def fileTypePatterns_def
  by simp

lemma detectFileType_label: "detectFileType url \<in> set fileTypeLabels"
  unfolding detectFileType_def fileTypeLabels_def
  by (simp split: option.split)

text \<open>
  C9. For every input, \<open>detectFileType\<close> returns one of the eleven file types, and it is the
  type of the first matching substring pattern in priority order; an empty or absent URL
  gives \<open>Other\<close>, and a URL that matches no pattern gives \<open>Website\<close>.
\<close>

theorem C9_detectFileType:
  "detectFileType url \<in> set fileTypeLabels
   \<and> detectFileType url = classifyByPriority url
   \<and> (url = [] \<longrightarrow> detectFileType url = ''Other'')
   \<and> (url \<noteq> [] \<and> (\<forall>(p, t) \<in> set fileTypePatterns. \<not> p url)
        \<longrightarrow> detectFileType url = ''Website'')"
proof -
  have none: "firstMatch rules url = None" if "\<forall>(p, t) \<in> set rules. \<not> p url" for rules
    using that by (induction rules) auto
  have "classifyByPriority url = ''Website''"
    if "url \<noteq> []" "\<forall>(p, t) \<in> set fileTypePatterns. \<not> p url"
    using that none [of fileTypePatterns] by (simp add: classifyByPriority_def)
  moreover have "url = [] \<Longrightarrow> detectFileType url = ''Other''"
    by (simp add: detectFileType_def)
  ultimately show ?thesis
    using detectFileType_label [of url] detectFileType_classify [of url] by simp
qed

theorem C9_detectFileType_witness:
  "detectFileType ''https://example.org/a'' \<in> set fileTypeLabels
   \<and> detectFileType ''https://example.org/a'' = classifyByPriority ''https://example.org/a''
   \<and> ''https://example.org/a'' \<noteq> []
   \<and> \<not> (\<exists>(p, t) \<in> set fileTypePatterns. p ''https://example.org/a'')
   \<and> detectFileType ''https://example.org/a'' = ''Website''
   \<and> detectFileType [] = ''Other''"
proof -
  note web = C9_detectFileType [of "''https://example.org/a''"]
  note absent = C9_detectFileType [of "[]"]
  have ne: "''https://example.org/a'' \<noteq> []"
    by simp
  have nomatch: "\<forall>(p, t) \<in> set fileTypePatterns. \<not> p ''https://example.org/a''"
    by (simp add: fileTypePatterns_def)
  show ?thesis
    using web absent ne nomatch by blast
qed

end
